theory Spec2Isabelle
  imports Complex_Main "HOL-Library.AList" "HOL-Library.Char_ord" "HOL-Library.List_Lexorder"
begin

section \<open>TabCorr: tabulated halo correlation functions\<close>

text \<open>
  A shallow embedding of \<^verbatim>\<open>src/tabcorr/tabcorr.py\<close> (class \<^verbatim>\<open>TabCorr\<close>).
  Floating-point numbers are idealised as \<^typ>\<open>real\<close>; numpy arrays are lists (nested
  lists for several axes); every Python exception is a value of type \<open>error\<close>,
  returned as \<open>Inl\<close>.
\<close>

subsection \<open>Errors and data\<close>

datatype error =
    ValueError
  | KeyError
  | IndexError
  | AssertionError
  | UnboundLocalError
  | OSError
  | AttributeError
  | ZeroDivisionError
  | CallableError

text \<open>Values stored in \<^verbatim>\<open>attrs\<close>: strings, booleans and numbers.\<close>

datatype attr = AStr string | ABool bool | ANum real

text \<open>
  The bin table \<^verbatim>\<open>gal_type\<close> (an astropy \<^verbatim>\<open>Table\<close>), column by column.
  The column \<^verbatim>\<open>sec\<close> exists only when the secondary split is on.
\<close>

record bin_table =
  c_n_h :: "real list"
  c_sec :: "int list option"
  c_gal_type :: "string list"
  c_log_prim_haloprop_min :: "real list"
  c_log_prim_haloprop_max :: "real list"
  c_prim_haloprop :: "real list"

text \<open>
  \<^verbatim>\<open>tpcf_matrix\<close>: indexed \<open>[s][i][j]\<close> in auto mode (\<open>Mat3\<close>) and \<open>[s][i]\<close>
  in cross mode (\<open>Mat2\<close>), \<open>s\<close> being the element of the flattened statistic.
\<close>

datatype matrix = Mat3 "real list list list" | Mat2 "real list list"

text \<open>
  A \<^verbatim>\<open>TabCorr\<close> object. Python dictionaries keep insertion order and are
  association lists here; \<open>'a\<close> is the type of the values forwarded to the
  correlation function.
\<close>

record 'a tabcorr =
  init :: bool
  attrs :: "(string \<times> attr) list"
  gal_type :: bin_table
  tpcf_args :: "'a list"
  tpcf_kwargs :: "(string \<times> 'a) list"
  tpcf_shape :: "nat list"
  tpcf_matrix :: matrix

subsection \<open>The bundle file\<close>

text \<open>
  The HDF5 file restricted to the names \<^verbatim>\<open>write\<close> creates and \<^verbatim>\<open>read\<close> opens:
  the file attributes, the datasets \<^verbatim>\<open>tpcf_matrix\<close> and \<^verbatim>\<open>tpcf_shape\<close>, the
  groups \<^verbatim>\<open>tpcf_args\<close> and \<^verbatim>\<open>tpcf_kwargs\<close> and the table \<^verbatim>\<open>gal_type\<close>.
  \<open>None\<close> means that the name does not exist in the file. A group lists its
  members in creation order; \<open>h5_keys\<close> iterates over them as h5py does, in
  increasing order of the names.
\<close>

record 'a h5file =
  h5_attrs :: "(string \<times> attr) list"
  h5_tpcf_matrix :: "matrix option"
  h5_tpcf_args :: "(string \<times> 'a) list option"
  h5_tpcf_kwargs :: "(string \<times> 'a) list option"
  h5_tpcf_shape :: "nat list option"
  h5_gal_type :: "bin_table option"

type_synonym 'a filesystem = "string \<rightharpoonup> 'a h5file"

definition h5_empty :: "'a h5file" where
  "h5_empty = \<lparr>h5_attrs = [], h5_tpcf_matrix = None, h5_tpcf_args = None,
     h5_tpcf_kwargs = None, h5_tpcf_shape = None, h5_gal_type = None\<rparr>"

definition h5_keys :: "(string \<times> 'b) list \<Rightarrow> string list" where
  "h5_keys g = sort (map fst g)"

text \<open>
  \<^verbatim>\<open>fstream['group/name'] = value\<close>: the group is created when it is missing, and
  creating a name that is already there fails.
\<close>

definition h5_create :: "(string \<times> 'b) list option \<Rightarrow> string \<Rightarrow> 'b \<Rightarrow> error + (string \<times> 'b) list option" where
  "h5_create g name v =
     (case g of
        None \<Rightarrow> Inr (Some [(name, v)])
      | Some ms \<Rightarrow> if name \<in> fst ` set ms then Inl ValueError else Inr (Some (ms @ [(name, v)])))"

text \<open>\<^verbatim>\<open>'%d' % i\<close> for a non-negative index.\<close>

fun str_of_nat :: "nat \<Rightarrow> string" where
  "str_of_nat n =
     (if n < 10 then [char_of (48 + n)]
      else str_of_nat (n div 10) @ [char_of (48 + n mod 10)])"

declare str_of_nat.simps [simp del]

subsection \<open>\<^verbatim>\<open>TabCorr.write\<close>\<close>

definition keys :: "string list" where
  "keys = [''tpcf'', ''mode'', ''simname'', ''redshift'', ''Num_ptcl_requirement'',
           ''prim_haloprop_key'', ''sec_haloprop'', ''sec_haloprop_key'',
           ''sec_haloprop_split'']"

text \<open>
  Every step of \<^verbatim>\<open>write\<close> after the file has been opened takes the file written so
  far and returns it with an optional exception, so that the content left behind by
  a failing call is part of the model.
\<close>

fun write_attrs :: "string list \<Rightarrow> (string \<times> attr) list \<Rightarrow> 'a h5file \<Rightarrow> error option \<times> 'a h5file" where
  "write_attrs [] self_attrs f = (None, f)"
| "write_attrs (key # ks) self_attrs f =
     (case map_of self_attrs key of
        None \<Rightarrow> (Some KeyError, f)
      | Some v \<Rightarrow> write_attrs ks self_attrs (f\<lparr>h5_attrs := AList.update key v (h5_attrs f)\<rparr>))"

fun write_args :: "nat \<Rightarrow> 'a list \<Rightarrow> 'a h5file \<Rightarrow> error option \<times> 'a h5file" where
  "write_args i [] f = (None, f)"
| "write_args i (arg # rest) f =
     (case h5_create (h5_tpcf_args f) (''arg_'' @ str_of_nat i) arg of
        Inl e \<Rightarrow> (Some e, f)
      | Inr g \<Rightarrow> write_args (Suc i) rest (f\<lparr>h5_tpcf_args := g\<rparr>))"

fun write_kwargs :: "(string \<times> 'a) list \<Rightarrow> 'a h5file \<Rightarrow> error option \<times> 'a h5file" where
  "write_kwargs [] f = (None, f)"
| "write_kwargs ((key, v) # rest) f =
     (case h5_create (h5_tpcf_kwargs f) key v of
        Inl e \<Rightarrow> (Some e, f)
      | Inr g \<Rightarrow> write_kwargs rest (f\<lparr>h5_tpcf_kwargs := g\<rparr>))"

definition write_stream :: "'a tabcorr \<Rightarrow> 'a h5file \<Rightarrow> error option \<times> 'a h5file" where
  "write_stream self f0 =
     (case write_attrs keys (attrs self) f0 of
        (Some e, f1) \<Rightarrow> (Some e, f1)
      | (None, f1) \<Rightarrow>
     (let f2 = f1\<lparr>h5_tpcf_matrix := Some (tpcf_matrix self)\<rparr> in
      case write_args 0 (tpcf_args self) f2 of
        (Some e, f3) \<Rightarrow> (Some e, f3)
      | (None, f3) \<Rightarrow>
     (case write_kwargs (tpcf_kwargs self) f3 of
        (Some e, f4) \<Rightarrow> (Some e, f4)
      | (None, f4) \<Rightarrow>
     (let f5 = f4\<lparr>h5_tpcf_shape := Some (tpcf_shape self)\<rparr> in
      case h5_gal_type f5 of
        Some t \<Rightarrow> (Some OSError, f5)
      | None \<Rightarrow> (None, f5\<lparr>h5_gal_type := Some (gal_type self)\<rparr>)))))"

text \<open>
  \<^verbatim>\<open>h5py.File(fname, 'w-')\<close> is the first statement: it raises when the file
  exists and creates an empty file otherwise. The result is the exception, if any,
  and the file system after the call. (\<open>write\<close> is a keyword of Isabelle, hence the
  name \<open>tabcorr_write\<close>.)
\<close>

definition tabcorr_write :: "'a tabcorr \<Rightarrow> string \<Rightarrow> 'a filesystem \<Rightarrow> error option \<times> 'a filesystem" where
  "tabcorr_write self fname fs =
     (case fs fname of
        Some existing \<Rightarrow> (Some OSError, fs)
      | None \<Rightarrow>
          (case write_stream self h5_empty of
             (r, f) \<Rightarrow> (r, fs(fname \<mapsto> f))))"

subsection \<open>\<^verbatim>\<open>TabCorr.read\<close>\<close>

text \<open>
  \<^verbatim>\<open>fstream[name]\<close> raises \<^verbatim>\<open>KeyError\<close> for a name that is not in the file. Only
  \<^verbatim>\<open>tpcf_kwargs\<close> is looked up under a guard.
\<close>

definition h5_get :: "'b option \<Rightarrow> error + 'b" where
  "h5_get x = (case x of None \<Rightarrow> Inl KeyError | Some v \<Rightarrow> Inr v)"

definition read_group :: "(string \<times> 'b) list \<Rightarrow> 'b list" where
  "read_group g = map (\<lambda>key. the (map_of g key)) (h5_keys g)"

definition read :: "string \<Rightarrow> 'a filesystem \<Rightarrow> error + 'a tabcorr" where
  "read fname fs =
     (case fs fname of
        None \<Rightarrow> Inl OSError
      | Some f \<Rightarrow>
     (let attrs' = map (\<lambda>key. (key, the (map_of (h5_attrs f) key))) (h5_keys (h5_attrs f)) in
      case h5_get (h5_tpcf_matrix f) of Inl e \<Rightarrow> Inl e | Inr m \<Rightarrow>
     (case h5_get (h5_tpcf_args f) of Inl e \<Rightarrow> Inl e | Inr g \<Rightarrow>
     (let args = read_group g;
          kwargs = (case h5_tpcf_kwargs f of
                      None \<Rightarrow> []
                    | Some kg \<Rightarrow> map (\<lambda>key. (key, the (map_of kg key))) (h5_keys kg)) in
      case h5_get (h5_tpcf_shape f) of Inl e \<Rightarrow> Inl e | Inr shp \<Rightarrow>
     (case h5_get (h5_gal_type f) of Inl e \<Rightarrow> Inl e | Inr t \<Rightarrow>
        Inr \<lparr>init = True, attrs = attrs', gal_type = t, tpcf_args = args,
             tpcf_kwargs = kwargs, tpcf_shape = shp, tpcf_matrix = m\<rparr>)))))"

subsection \<open>numpy operations used by \<^verbatim>\<open>tabulate\<close>\<close>

definition np_tile :: "'b list \<Rightarrow> nat \<Rightarrow> 'b list" where
  "np_tile xs reps = concat (replicate reps xs)"

definition np_repeat :: "'b list \<Rightarrow> nat \<Rightarrow> 'b list" where
  "np_repeat xs repeats = concat (map (replicate repeats) xs)"

text \<open>\<^verbatim>\<open>np.linspace(start, stop, num)\<close> for \<open>num \<ge> 2\<close>.\<close>

definition np_linspace :: "real \<Rightarrow> real \<Rightarrow> nat \<Rightarrow> real list" where
  "np_linspace start stop num =
     map (\<lambda>i. start + real i * ((stop - start) / real (num - 1))) [0..<num]"

text \<open>
  The bins of \<^verbatim>\<open>np.histogram\<close>: bin \<open>i\<close> is \<open>[edges[i], edges[i+1])\<close>, and the last
  bin also contains its right edge.
\<close>

definition in_histogram_bin :: "real list \<Rightarrow> nat \<Rightarrow> real \<Rightarrow> bool" where
  "in_histogram_bin edges i x =
     (edges ! i \<le> x \<and> (x < edges ! Suc i \<or> (Suc (Suc i) = length edges \<and> x = edges ! Suc i)))"

definition histogram_counts :: "real list \<Rightarrow> real list \<Rightarrow> nat list" where
  "histogram_counts a edges =
     map (\<lambda>i. length (filter (in_histogram_bin edges i) a)) [0..<length edges - 1]"

text \<open>
  \<^verbatim>\<open>np.histogram(a, bins=n)\<close> with a number of bins: the range is \<open>(min a, max a)\<close>,
  \<open>(0, 1)\<close> for an empty sample, and it is widened by one half on both sides when
  its two ends coincide.
\<close>

definition np_histogram :: "real list \<Rightarrow> int \<Rightarrow> error + (nat list \<times> real list)" where
  "np_histogram a bins =
     (if bins < 1 then Inl ValueError
      else
        let first_edge = (if a = [] then 0 else Min (set a));
            last_edge = (if a = [] then 1 else Max (set a));
            lo = (if first_edge = last_edge then first_edge - 1 / 2 else first_edge);
            hi = (if first_edge = last_edge then last_edge + 1 / 2 else last_edge);
            bin_edges = np_linspace lo hi (nat bins + 1)
        in Inr (histogram_counts a bin_edges, bin_edges))"

text \<open>\<^verbatim>\<open>np.histogram(a, bins=edges)\<close> with the edges given; they must not decrease.\<close>

definition np_histogram_edges :: "real list \<Rightarrow> real list \<Rightarrow> error + (nat list \<times> real list)" where
  "np_histogram_edges a bin_edges =
     (if \<not> sorted bin_edges then Inl ValueError
      else Inr (histogram_counts a bin_edges, bin_edges))"

subsection \<open>Inputs of \<^verbatim>\<open>tabulate\<close>\<close>

text \<open>
  A row of \<^verbatim>\<open>halocat.halo_table\<close>; \<open>halo_prim\<close> is the column named by
  \<^verbatim>\<open>prim_haloprop_key\<close>.
\<close>

record halo =
  halo_id :: int
  halo_pid :: int
  halo_prim :: real

record halocat =
  halo_table :: "halo list"
  particle_mass :: real
  Lbox :: "real list"
  redshift :: real
  simname :: string

text \<open>A row of the mock galaxy table \<^verbatim>\<open>gals\<close>.\<close>

record galaxy =
  gal_halo_id :: int
  gal_prim :: real
  gal_gal_type :: string

type_synonym position = "real \<times> real \<times> real"

text \<open>The keyword parameters of \<^verbatim>\<open>tabulate\<close> that the method itself reads.\<close>

record tabulate_params =
  mode :: string
  Num_ptcl_requirement :: real
  prim_haloprop_key :: string
  sec_haloprop :: bool
  sec_haloprop_key :: string
  sec_haloprop_split :: real
  prim_haloprop_bins :: int

text \<open>
  What the libraries outside the repository hand to \<^verbatim>\<open>tabulate\<close>: the conditional
  percentiles of the selected halos (\<^verbatim>\<open>compute_conditional_percentiles\<close>), the mock
  galaxy table after \<^verbatim>\<open>populate_mock\<close> and the random downsampling, and the positions
  returned by \<^verbatim>\<open>return_xyz_formatted_array\<close>. They are arbitrary in every theorem.
\<close>

record collaborators =
  compute_conditional_percentiles :: "halo list \<Rightarrow> error + real list"
  mock_galaxy_table :: "galaxy list"
  return_xyz_formatted_array :: "galaxy list \<Rightarrow> position list"

text \<open>A numpy array: its shape and its elements in row-major order.\<close>

record 'e ndarray =
  nd_shape :: "nat list"
  nd_data :: "'e list"

definition nd_ok :: "'e ndarray \<Rightarrow> bool" where
  "nd_ok a = (length (nd_data a) = prod_list (nd_shape a))"

text \<open>What a call of the correlation function returns: an array, or a tuple of arrays.\<close>

datatype retval = Arr "real ndarray" | Tup "real ndarray list"

text \<open>
  The keywords \<^verbatim>\<open>sample2\<close>, \<^verbatim>\<open>do_auto\<close> and \<^verbatim>\<open>do_cross\<close> that auto mode adds to
  the call.
\<close>

record auto_keywords =
  sample2 :: "position list option"
  do_auto :: bool
  do_cross :: bool

text \<open>
  The correlation function \<^verbatim>\<open>tpcf\<close>: its \<^verbatim>\<open>__name__\<close> and the call, which receives
  the first sample, the positional arguments, the auto-mode keywords (\<open>None\<close> in
  cross mode) and the keyword arguments, and returns a value or raises.
\<close>

record 'a callable =
  tpcf_name :: string
  tpcf_call :: "position list \<Rightarrow> 'a list \<Rightarrow> auto_keywords option \<Rightarrow> (string \<times> 'a) list \<Rightarrow> error + retval"

subsection \<open>\<^verbatim>\<open>tabulate\<close>: the bin table (lines 135 to 171)\<close>

definition table_len :: "bin_table \<Rightarrow> nat" where
  "table_len t = length (c_n_h t)"

text \<open>
  \<open>prim\<close> is the primary property of the selected halos and \<open>percentile\<close> their
  conditional percentile. \<^verbatim>\<open>np.log10\<close> of a value that is not positive is not
  finite, and \<^verbatim>\<open>np.histogram\<close> refuses a range that is not finite. A column whose
  length differs from the table's is refused by the table.
\<close>

definition tabulate_gal_type ::
  "real list \<Rightarrow> real list \<Rightarrow> bool \<Rightarrow> real \<Rightarrow> int \<Rightarrow> real \<Rightarrow> error + bin_table" where
  "tabulate_gal_type prim percentile sec_hp sec_split bins volume =
     (if \<exists>x \<in> set prim. x \<le> 0 then Inl ValueError
      else case np_histogram (map (log 10) prim) bins of
        Inl e \<Rightarrow> Inl e
      | Inr (n_h, log_prim_haloprop_bins) \<Rightarrow>
     (case (if sec_hp
            then (case np_histogram_edges
                         (map (\<lambda>(x, p). log 10 x) (filter (\<lambda>(x, p). p < sec_split) (zip prim percentile)))
                         log_prim_haloprop_bins of
                    Inl e \<Rightarrow> Inl e
                  | Inr (n_h_0, edges_0) \<Rightarrow>
                 (case np_histogram_edges
                         (map (\<lambda>(x, p). log 10 x) (filter (\<lambda>(x, p). p \<ge> sec_split) (zip prim percentile)))
                         edges_0 of
                    Inl e \<Rightarrow> Inl e
                  | Inr (n_h_1, edges_1) \<Rightarrow>
                      Inr (map (\<lambda>c. real c / volume) (np_tile (n_h_0 @ n_h_1) 2),
                           Some (np_tile (np_repeat [0, 1] (length n_h)) 2),
                           edges_1)))
            else Inr (map (\<lambda>c. real c / volume) (np_tile n_h 2), None, log_prim_haloprop_bins)) of
        Inl e \<Rightarrow> Inl e
      | Inr (col_n_h, col_sec, edges) \<Rightarrow>
     (let len = length col_n_h;
          col_gal_type = replicate (len div 2) ''centrals'' @ replicate (len div 2) ''satellites'' in
      if (case col_sec of None \<Rightarrow> False | Some s \<Rightarrow> length s \<noteq> len) then Inl ValueError
      else if length col_gal_type \<noteq> len then Inl ValueError
      else if length (butlast edges) = 0 then Inl ZeroDivisionError
      else
        let col_min = np_tile (butlast edges) (len div length (butlast edges));
            col_max = np_tile (tl edges) (len div length (tl edges)) in
        if length col_min \<noteq> len \<or> length col_max \<noteq> len then Inl ValueError
        else Inr \<lparr>c_n_h = col_n_h, c_sec = col_sec, c_gal_type = col_gal_type,
                  c_log_prim_haloprop_min = col_min, c_log_prim_haloprop_max = col_max,
                  c_prim_haloprop = map2 (\<lambda>lo hi. 10 powr (0.5 * (lo + hi))) col_min col_max\<rparr>)))"

subsection \<open>\<^verbatim>\<open>tabulate\<close>: galaxies and their halos (lines 185 to 189)\<close>

fun index_of :: "'b list \<Rightarrow> 'b \<Rightarrow> nat" where
  "index_of [] v = 0"
| "index_of (y # ys) v = (if y = v then 0 else Suc (index_of ys v))"

text \<open>
  \<^verbatim>\<open>halotools.utils.crossmatch(x, y)\<close>, a function of the halotools library, after
  its documentation: \<open>y\<close> must not repeat a value (\<^verbatim>\<open>ValueError\<close> otherwise), \<open>x\<close>
  and \<open>y\<close> may overlap only in part, and the two index arrays returned list, for
  every element of \<open>x\<close> that occurs in \<open>y\<close>, its index in \<open>x\<close> and the index of its
  match in \<open>y\<close>. The library returns the pairs sorted by the value of \<open>x\<close>;
  \<^verbatim>\<open>tabulate\<close> uses them in ways that do not depend on their order, and they are
  listed by index in \<open>x\<close> here.
\<close>

definition crossmatch :: "int list \<Rightarrow> int list \<Rightarrow> error + (nat list \<times> nat list)" where
  "crossmatch x y =
     (if \<not> distinct y then Inl ValueError
      else
        let idx_x = filter (\<lambda>i. x ! i \<in> set y) [0..<length x]
        in Inr (idx_x, map (\<lambda>i. index_of y (x ! i)) idx_x))"

text \<open>
  Lines 185 to 189: the cross-match, the assertion on the matched pairs, a column
  of zeros, and the percentiles of the matched halos written at the matched
  galaxies. The result is the column \<^verbatim>\<open>gals[sec_haloprop_key + '_percentile']\<close>.
\<close>

definition tabulate_percentile :: "int list \<Rightarrow> int list \<Rightarrow> real list \<Rightarrow> error + real list" where
  "tabulate_percentile gal_ids halo_ids halo_percentile =
     (case crossmatch gal_ids halo_ids of
        Inl e \<Rightarrow> Inl e
      | Inr (idx_gals, idx_halos) \<Rightarrow>
          if (\<exists>i \<in> set idx_gals. length gal_ids \<le> i) \<or> (\<exists>j \<in> set idx_halos. length halo_ids \<le> j)
          then Inl IndexError
          else if map (\<lambda>i. gal_ids ! i) idx_gals \<noteq> map (\<lambda>j. halo_ids ! j) idx_halos
          then Inl AssertionError
          else Inr (fold (\<lambda>(i, j) col. col[i := halo_percentile ! j]) (zip idx_gals idx_halos)
                      (replicate (length gal_ids) 0)))"

subsection \<open>\<^verbatim>\<open>tabulate\<close>: the galaxies of every bin (lines 197 to 214)\<close>

text \<open>A \<^verbatim>\<open>for\<close> loop whose body may raise: the first exception ends it.\<close>

fun for_loop :: "'b list \<Rightarrow> ('b \<Rightarrow> 's \<Rightarrow> error + 's) \<Rightarrow> 's \<Rightarrow> error + 's" where
  "for_loop [] body s = Inr s"
| "for_loop (x # xs) body s =
     (case body x s of Inl e \<Rightarrow> Inl e | Inr s' \<Rightarrow> for_loop xs body s')"

text \<open>\<^verbatim>\<open>a[mask]\<close> with a boolean mask \<open>msk\<close>, which must be as long as \<open>a\<close>.\<close>

definition np_select :: "'b list \<Rightarrow> bool list \<Rightarrow> error + 'b list" where
  "np_select a msk =
     (if length msk \<noteq> length a then Inl IndexError
      else Inr (map fst (filter snd (zip a msk))))"

text \<open>
  The mask of bin \<open>i\<close> over the galaxies; every galaxy comes with the percentile
  that \<open>tabulate_percentile\<close> gave it.
\<close>

definition bin_mask :: "bin_table \<Rightarrow> (galaxy \<times> real) list \<Rightarrow> bool \<Rightarrow> real \<Rightarrow> nat \<Rightarrow> error + bool list" where
  "bin_mask t gals sec_hp sec_split i =
     (let msk = map (\<lambda>(g, pct). 10 powr (c_log_prim_haloprop_min t ! i) < gal_prim g \<and>
                                  10 powr (c_log_prim_haloprop_max t ! i) \<ge> gal_prim g \<and>
                                  c_gal_type t ! i = gal_gal_type g) gals
      in if sec_hp
         then (case c_sec t of
                 None \<Rightarrow> Inl KeyError
               | Some sec \<Rightarrow>
                   if sec ! i = 0
                   then Inr (map2 (\<lambda>m (g, pct). m \<and> pct < sec_split) msk gals)
                   else Inr (map2 (\<lambda>m (g, pct). m \<and> pct \<ge> sec_split) msk gals))
         else Inr msk)"

definition tabulate_pos ::
  "bin_table \<Rightarrow> (galaxy \<times> real) list \<Rightarrow> position list \<Rightarrow> bool \<Rightarrow> real \<Rightarrow> error + position list list" where
  "tabulate_pos t gals pos_all sec_hp sec_split =
     for_loop [0..<table_len t]
       (\<lambda>i pos. case bin_mask t gals sec_hp sec_split i of
                   Inl e \<Rightarrow> Inl e
                 | Inr msk \<Rightarrow>
                     (case np_select pos_all msk of
                        Inl e \<Rightarrow> Inl e
                      | Inr selected \<Rightarrow> Inr (pos @ [selected])))
       []"

subsection \<open>\<^verbatim>\<open>tabulate\<close>: the matrix (lines 216 to 247)\<close>

text \<open>
  The local variables \<^verbatim>\<open>tpcf_matrix\<close> and \<^verbatim>\<open>tpcf_shape\<close>, \<open>None\<close> while they are
  not bound, and a trace of the calls made so far: the pair of bins \<open>(i, k)\<close> of
  every call of \<^verbatim>\<open>tpcf\<close>, \<open>(i, i)\<close> in cross mode. The trace is not a variable of
  the program; it records what the program did.
\<close>

record tab_state =
  st_tpcf_matrix :: "matrix option"
  st_tpcf_shape :: "nat list option"
  st_calls :: "(nat \<times> nat) list"

text \<open>\<^verbatim>\<open>xi.ravel()\<close> and \<^verbatim>\<open>xi.shape\<close>: a tuple has neither.\<close>

definition ravel :: "retval \<Rightarrow> error + real list" where
  "ravel xi = (case xi of Arr a \<Rightarrow> Inr (nd_data a) | Tup parts \<Rightarrow> Inl AttributeError)"

definition shape_of :: "retval \<Rightarrow> error + nat list" where
  "shape_of xi = (case xi of Arr a \<Rightarrow> Inr (nd_shape a) | Tup parts \<Rightarrow> Inl AttributeError)"

text \<open>\<^verbatim>\<open>xi[1]\<close>: the second member of a tuple, or the second item along the first axis of an array.\<close>

definition index_1 :: "retval \<Rightarrow> error + retval" where
  "index_1 xi =
     (case xi of
        Tup parts \<Rightarrow> if 1 < length parts then Inr (Arr (parts ! 1)) else Inl IndexError
      | Arr a \<Rightarrow>
          (case nd_shape a of
             [] \<Rightarrow> Inl IndexError
           | d # ds \<Rightarrow>
               if 1 < d
               then Inr (Arr \<lparr>nd_shape = ds,
                             nd_data = take (prod_list ds) (drop (prod_list ds) (nd_data a))\<rparr>)
               else Inl IndexError))"

text \<open>
  Assigning a flat array to a slice of \<open>k\<close> elements: the lengths agree, or a
  single element is repeated; anything else is a \<^verbatim>\<open>ValueError\<close>.
\<close>

definition np_broadcast_to :: "real list \<Rightarrow> nat \<Rightarrow> error + real list" where
  "np_broadcast_to v k =
     (if length v = k then Inr v
      else if length v = 1 then Inr (replicate k (v ! 0))
      else Inl ValueError)"

text \<open>\<^verbatim>\<open>tpcf_matrix[:, i, k] = v\<close> and \<^verbatim>\<open>tpcf_matrix[:, i] = v\<close>.\<close>

definition set_3d :: "real list list list \<Rightarrow> nat \<Rightarrow> nat \<Rightarrow> real list \<Rightarrow> error + real list list list" where
  "set_3d m i k v =
     (if \<exists>plane \<in> set m. \<not> (i < length plane \<and> k < length (plane ! i)) then Inl IndexError
      else case np_broadcast_to v (length m) of
        Inl e \<Rightarrow> Inl e
      | Inr w \<Rightarrow> Inr (map2 (\<lambda>plane x. plane[i := (plane ! i)[k := x]]) m w))"

definition set_2d :: "real list list \<Rightarrow> nat \<Rightarrow> real list \<Rightarrow> error + real list list" where
  "set_2d m i v =
     (if \<exists>row \<in> set m. \<not> i < length row then Inl IndexError
      else case np_broadcast_to v (length m) of
        Inl e \<Rightarrow> Inl e
      | Inr w \<Rightarrow> Inr (map2 (\<lambda>row x. row[i := x]) m w))"

text \<open>The body of the inner loop of auto mode, lines 223 to 235, for the bins \<open>i\<close> and \<open>k\<close>.\<close>

definition auto_pair ::
  "'a callable \<Rightarrow> 'a list \<Rightarrow> (string \<times> 'a) list \<Rightarrow> nat \<Rightarrow> position list list \<Rightarrow>
   nat \<Rightarrow> nat \<Rightarrow> tab_state \<Rightarrow> error + tab_state" where
  "auto_pair tpcf args kwargs n pos i k st =
     (if length (pos ! i) * length (pos ! k) > 0
      then
        case tpcf_call tpcf (pos ! i) args
               (Some \<lparr>sample2 = (if k \<noteq> i then Some (pos ! k) else None),
                      do_auto = (i = k), do_cross = (\<not> i = k)\<rparr>) kwargs of
          Inl e \<Rightarrow> Inl e
        | Inr xi \<Rightarrow>
       (case ravel xi of Inl e \<Rightarrow> Inl e | Inr v \<Rightarrow>
       (case shape_of xi of Inl e \<Rightarrow> Inl e | Inr shp \<Rightarrow>
       (let st1 = (case st_tpcf_matrix st of
                     None \<Rightarrow> st\<lparr>st_tpcf_matrix := Some (Mat3 (replicate (length v) (replicate n (replicate n 0)))),
                                  st_tpcf_shape := Some shp\<rparr>
                   | Some m \<Rightarrow> st) in
        case st_tpcf_matrix st1 of
          Some (Mat3 m) \<Rightarrow>
            (case set_3d m i k v of Inl e \<Rightarrow> Inl e | Inr m1 \<Rightarrow>
            (case set_3d m1 k i v of Inl e \<Rightarrow> Inl e | Inr m2 \<Rightarrow>
               Inr (st1\<lparr>st_tpcf_matrix := Some (Mat3 m2), st_calls := st_calls st @ [(i, k)]\<rparr>)))
        | _ \<Rightarrow> Inl IndexError)))
      else Inr st)"

text \<open>The body of cross mode, lines 238 to 247, for the bin \<open>i\<close>.\<close>

definition cross_bin ::
  "'a callable \<Rightarrow> 'a list \<Rightarrow> (string \<times> 'a) list \<Rightarrow> nat \<Rightarrow> position list list \<Rightarrow>
   nat \<Rightarrow> tab_state \<Rightarrow> error + tab_state" where
  "cross_bin tpcf args kwargs n pos i st =
     (if length (pos ! i) > 0
      then
        case tpcf_call tpcf (pos ! i) args None kwargs of
          Inl e \<Rightarrow> Inl e
        | Inr xi0 \<Rightarrow>
       (case (if tpcf_name tpcf = ''delta_sigma'' then index_1 xi0 else Inr xi0) of
          Inl e \<Rightarrow> Inl e
        | Inr xi \<Rightarrow>
       (case ravel xi of Inl e \<Rightarrow> Inl e | Inr v \<Rightarrow>
       (case shape_of xi of Inl e \<Rightarrow> Inl e | Inr shp \<Rightarrow>
       (let st1 = (case st_tpcf_matrix st of
                     None \<Rightarrow> st\<lparr>st_tpcf_matrix := Some (Mat2 (replicate (length v) (replicate n 0))),
                                  st_tpcf_shape := Some shp\<rparr>
                   | Some m \<Rightarrow> st) in
        case st_tpcf_matrix st1 of
          Some (Mat2 m) \<Rightarrow>
            (case set_2d m i v of Inl e \<Rightarrow> Inl e | Inr m1 \<Rightarrow>
               Inr (st1\<lparr>st_tpcf_matrix := Some (Mat2 m1), st_calls := st_calls st @ [(i, i)]\<rparr>))
        | _ \<Rightarrow> Inl IndexError))))
      else Inr st)"

text \<open>The loop over the bins, lines 216 to 247; \<open>n\<close> is \<^verbatim>\<open>len(halotab.gal_type)\<close>.\<close>

definition tabulate_matrix ::
  "'a callable \<Rightarrow> 'a list \<Rightarrow> (string \<times> 'a) list \<Rightarrow> string \<Rightarrow> nat \<Rightarrow> position list list \<Rightarrow>
   error + tab_state" where
  "tabulate_matrix tpcf args kwargs md n pos =
     for_loop [0..<n]
       (\<lambda>i st. if md = ''auto'' then for_loop [i..<n] (auto_pair tpcf args kwargs n pos i) st
                else if md = ''cross'' then cross_bin tpcf args kwargs n pos i st
                else Inr st)
       \<lparr>st_tpcf_matrix = None, st_tpcf_shape = None, st_calls = []\<rparr>"

subsection \<open>\<^verbatim>\<open>TabCorr.tabulate\<close>\<close>

text \<open>
  The whole method. The halos are filtered as in lines 126 to 129; the percentile
  column must have one value for every halo; \<^verbatim>\<open>tpcf_shape\<close> and \<^verbatim>\<open>tpcf_matrix\<close>
  are read in lines 262 and 263, which fails when no call has bound them.
\<close>

definition tabulate ::
  "halocat \<Rightarrow> 'a callable \<Rightarrow> 'a list \<Rightarrow> tabulate_params \<Rightarrow> (string \<times> 'a) list \<Rightarrow> collaborators \<Rightarrow>
   error + 'a tabcorr" where
  "tabulate cat tpcf args p kwargs ext =
     (let halos0 = filter (\<lambda>h. halo_pid h = - 1) (halo_table cat);
          halos = filter (\<lambda>h. halo_prim h \<ge> Num_ptcl_requirement p * particle_mass cat) halos0 in
      case compute_conditional_percentiles ext halos of Inl e \<Rightarrow> Inl e | Inr percentile \<Rightarrow>
      if length percentile \<noteq> length halos then Inl ValueError
      else
     (case tabulate_gal_type (map halo_prim halos) percentile (sec_haloprop p)
             (sec_haloprop_split p) (prim_haloprop_bins p) (prod_list (Lbox cat)) of
        Inl e \<Rightarrow> Inl e
      | Inr t \<Rightarrow>
     (let gals = mock_galaxy_table ext in
      case tabulate_percentile (map gal_halo_id gals) (map halo_id halos) percentile of
        Inl e \<Rightarrow> Inl e
      | Inr gal_percentile \<Rightarrow>
     (case tabulate_pos t (zip gals gal_percentile) (return_xyz_formatted_array ext gals)
             (sec_haloprop p) (sec_haloprop_split p) of
        Inl e \<Rightarrow> Inl e
      | Inr pos \<Rightarrow>
     (case tabulate_matrix tpcf args kwargs (mode p) (table_len t) pos of
        Inl e \<Rightarrow> Inl e
      | Inr st \<Rightarrow>
     (case (st_tpcf_shape st, st_tpcf_matrix st) of
        (Some shp, Some m) \<Rightarrow>
          Inr \<lparr>init = True,
               attrs = [(''tpcf'', AStr (tpcf_name tpcf)), (''mode'', AStr (mode p)),
                        (''simname'', AStr (simname cat)), (''redshift'', ANum (redshift cat)),
                        (''Num_ptcl_requirement'', ANum (Num_ptcl_requirement p)),
                        (''prim_haloprop_key'', AStr (prim_haloprop_key p)),
                        (''sec_haloprop'', ABool (sec_haloprop p)),
                        (''sec_haloprop_key'', AStr (sec_haloprop_key p)),
                        (''sec_haloprop_split'', ANum (sec_haloprop_split p))],
               gal_type = t, tpcf_args = args, tpcf_kwargs = kwargs,
               tpcf_shape = shp, tpcf_matrix = m\<rparr>
      | _ \<Rightarrow> Inl UnboundLocalError))))))"

subsection \<open>\<^verbatim>\<open>TabCorr.predict\<close>\<close>

text \<open>
  A result of a floating-point division: dividing by zero gives no error but a
  value that is not finite (\<^verbatim>\<open>nan\<close> or an infinity).
\<close>

datatype number = Finite real | NotFinite

definition np_divide :: "real \<Rightarrow> real \<Rightarrow> number" where
  "np_divide x y = (if y = 0 then NotFinite else Finite (x / y))"

text \<open>
  The two evaluators of the occupation model that \<^verbatim>\<open>predict\<close> calls, each with
  the arrays \<^verbatim>\<open>prim_haloprop\<close> and \<^verbatim>\<open>sec_haloprop_percentile\<close> (or \<^verbatim>\<open>None\<close>).
\<close>

record model =
  mean_occupation_centrals :: "real list \<Rightarrow> int list option \<Rightarrow> real list"
  mean_occupation_satellites :: "real list \<Rightarrow> int list option \<Rightarrow> real list"

text \<open>The truth value of an attribute in a condition.\<close>

definition py_truth :: "attr \<Rightarrow> bool" where
  "py_truth a = (case a of ABool b \<Rightarrow> b | ANum x \<Rightarrow> x \<noteq> 0 | AStr s \<Rightarrow> s \<noteq> [])"

fun sequence :: "(error + 'b) list \<Rightarrow> error + 'b list" where
  "sequence [] = Inr []"
| "sequence (r # rs) =
     (case r of
        Inl e \<Rightarrow> Inl e
      | Inr x \<Rightarrow> (case sequence rs of Inl e \<Rightarrow> Inl e | Inr xs \<Rightarrow> Inr (x # xs)))"

text \<open>
  An elementwise operation along one axis with numpy's broadcasting: the lengths
  agree, or the side of length one is repeated.
\<close>

definition np_broadcast :: "('b \<Rightarrow> 'c \<Rightarrow> error + 'd) \<Rightarrow> 'b list \<Rightarrow> 'c list \<Rightarrow> error + 'd list" where
  "np_broadcast f xs ys =
     (if length xs = length ys then sequence (map2 f xs ys)
      else if length xs = 1 then sequence (map (f (xs ! 0)) ys)
      else if length ys = 1 then sequence (map (\<lambda>x. f x (ys ! 0)) xs)
      else Inl ValueError)"

definition np_multiply_1d :: "real list \<Rightarrow> real list \<Rightarrow> error + real list" where
  "np_multiply_1d = np_broadcast (\<lambda>x y. Inr (x * y))"

definition np_multiply_2d :: "real list list \<Rightarrow> real list list \<Rightarrow> error + real list list" where
  "np_multiply_2d = np_broadcast np_multiply_1d"

definition np_outer :: "real list \<Rightarrow> real list \<Rightarrow> real list list" where
  "np_outer a b = map (\<lambda>x. map (\<lambda>y. x * y) b) a"

definition np_reshape :: "'e list \<Rightarrow> nat list \<Rightarrow> error + 'e ndarray" where
  "np_reshape d shp =
     (if prod_list shp = length d then Inr \<lparr>nd_shape = shp, nd_data = d\<rparr> else Inl ValueError)"

text \<open>\<^verbatim>\<open>a[mask] = values\<close>: one value for every selected place, or a single value for all.\<close>

fun put_mask :: "'b list \<Rightarrow> bool list \<Rightarrow> 'b list \<Rightarrow> 'b list" where
  "put_mask (a # as) (m # ms) vs =
     (if m then (case vs of [] \<Rightarrow> a # put_mask as ms [] | v # vs' \<Rightarrow> v # put_mask as ms vs')
      else a # put_mask as ms vs)"
| "put_mask as ms vs = as"

definition np_mask_assign :: "real list \<Rightarrow> bool list \<Rightarrow> real list \<Rightarrow> error + real list" where
  "np_mask_assign a msk vals =
     (if length msk \<noteq> length a then Inl IndexError
      else
        let c = length (filter (\<lambda>b. b) msk) in
        if length vals = c then Inr (put_mask a msk vals)
        else if length vals = 1 then Inr (put_mask a msk (replicate c (vals ! 0)))
        else Inl ValueError)"

text \<open>
  The argument \<^verbatim>\<open>sec_haloprop_percentile\<close>:
  \<^verbatim>\<open>self.gal_type['sec'][mask] if self.attrs['sec_haloprop'] else None\<close>.
\<close>

definition sec_argument :: "'a tabcorr \<Rightarrow> bool list \<Rightarrow> error + int list option" where
  "sec_argument self msk =
     (case map_of (attrs self) ''sec_haloprop'' of
        None \<Rightarrow> Inl KeyError
      | Some a \<Rightarrow>
          if py_truth a
          then (case c_sec (gal_type self) of
                  None \<Rightarrow> Inl KeyError
                | Some sec \<Rightarrow>
                    (case np_select sec msk of Inl e \<Rightarrow> Inl e | Inr s \<Rightarrow> Inr (Some s)))
          else Inr None)"

text \<open>Lines 361 to 371: the mean occupation of every bin.\<close>

definition mean_occupation :: "'a tabcorr \<Rightarrow> model \<Rightarrow> error + real list" where
  "mean_occupation self mdl =
     (let t = gal_type self;
          zeros = replicate (table_len t) 0;
          msk = map (\<lambda>g. g = ''centrals'') (c_gal_type t) in
      case np_select (c_prim_haloprop t) msk of Inl e \<Rightarrow> Inl e | Inr prim_c \<Rightarrow>
     (case sec_argument self msk of Inl e \<Rightarrow> Inl e | Inr sec_c \<Rightarrow>
     (case np_mask_assign zeros msk (mean_occupation_centrals mdl prim_c sec_c) of
        Inl e \<Rightarrow> Inl e
      | Inr occ_c \<Rightarrow>
     (case np_select (c_prim_haloprop t) (map Not msk) of Inl e \<Rightarrow> Inl e | Inr prim_s \<Rightarrow>
     (case sec_argument self (map Not msk) of Inl e \<Rightarrow> Inl e | Inr sec_s \<Rightarrow>
        np_mask_assign occ_c (map Not msk) (mean_occupation_satellites mdl prim_s sec_s))))))"

text \<open>
  Lines 373 to 382. In auto mode the matrix must have three axes for the sum over
  the axes 1 and 2. With the matrix of cross mode the three-axis case of line 379
  sums over the first bin axis only.
\<close>

definition predict :: "'a tabcorr \<Rightarrow> model \<Rightarrow> error + (real list \<times> number ndarray)" where
  "predict self mdl =
     (case mean_occupation self mdl of Inl e \<Rightarrow> Inl e | Inr occ \<Rightarrow>
     (case np_multiply_1d occ (c_n_h (gal_type self)) of Inl e \<Rightarrow> Inl e | Inr ngal \<Rightarrow>
     (case map_of (attrs self) ''mode'' of None \<Rightarrow> Inl KeyError | Some md \<Rightarrow>
      if md = AStr ''auto''
      then (case tpcf_matrix self of
              Mat2 m \<Rightarrow> Inl ValueError
            | Mat3 m \<Rightarrow>
                (case sequence (map (\<lambda>plane. np_multiply_2d plane (np_outer ngal ngal)) m) of
                   Inl e \<Rightarrow> Inl e
                 | Inr weighted \<Rightarrow>
                     (case np_reshape
                             (map (\<lambda>plane. np_divide (sum_list (map sum_list plane)) ((sum_list ngal)\<^sup>2))
                                weighted)
                             (tpcf_shape self) of
                        Inl e \<Rightarrow> Inl e
                      | Inr xi \<Rightarrow> Inr (ngal, xi))))
      else if md = AStr ''cross''
      then (case tpcf_matrix self of
              Mat2 m \<Rightarrow>
                (case sequence (map (\<lambda>row. np_multiply_1d row ngal) m) of
                   Inl e \<Rightarrow> Inl e
                 | Inr weighted \<Rightarrow>
                     (case np_reshape
                             (map (\<lambda>row. np_divide (sum_list row) (sum_list ngal)) weighted)
                             (tpcf_shape self) of
                        Inl e \<Rightarrow> Inl e
                      | Inr xi \<Rightarrow> Inr (ngal, xi)))
            | Mat3 m \<Rightarrow>
                (case sequence (map (\<lambda>plane. sequence (map (\<lambda>row. np_multiply_1d row ngal) plane)) m) of
                   Inl e \<Rightarrow> Inl e
                 | Inr weighted \<Rightarrow>
                     (case np_reshape
                             (concat (map (\<lambda>plane. map (\<lambda>col. np_divide (sum_list col) (sum_list ngal))
                                                    (transpose plane)) weighted))
                             (tpcf_shape self) of
                        Inl e \<Rightarrow> Inl e
                      | Inr xi \<Rightarrow> Inr (ngal, xi))))
      else Inl UnboundLocalError)))"

text \<open>
  The statistic of auto mode as the specification words it: element \<open>s\<close> is the
  sum over both bin indices of the matrix times the outer product of the density
  vector, divided by the square of the total density.
\<close>

definition spec_auto_statistic :: "real list list list \<Rightarrow> real list \<Rightarrow> nat \<Rightarrow> number" where
  "spec_auto_statistic m ngal s =
     np_divide (\<Sum>i<length ngal. \<Sum>j<length ngal. m ! s ! i ! j * (ngal ! i * ngal ! j))
               ((\<Sum>i<length ngal. ngal ! i)\<^sup>2)"

subsection \<open>Shapes of the matrix\<close>

text \<open>A nested list is an array of shape \<open>(K, n, n)\<close>, or of shape \<open>(K, n)\<close>.\<close>

definition dims_3d :: "nat \<Rightarrow> nat \<Rightarrow> real list list list \<Rightarrow> bool" where
  "dims_3d K n m =
     (length m = K \<and> (\<forall>plane \<in> set m. length plane = n \<and> (\<forall>row \<in> set plane. length row = n)))"

definition dims_2d :: "nat \<Rightarrow> nat \<Rightarrow> real list list \<Rightarrow> bool" where
  "dims_2d K n m = (length m = K \<and> (\<forall>row \<in> set m. length row = n))"

text \<open>In auto mode the matrix, once bound, has the shape \<open>(K, n, n)\<close>; in cross mode \<open>(K, n)\<close>.\<close>

definition auto_state :: "nat \<Rightarrow> tab_state \<Rightarrow> bool" where
  "auto_state n st =
     (case st_tpcf_matrix st of
        None \<Rightarrow> True
      | Some (Mat3 m) \<Rightarrow> dims_3d (length m) n m
      | Some (Mat2 m) \<Rightarrow> False)"

definition cross_state :: "nat \<Rightarrow> tab_state \<Rightarrow> bool" where
  "cross_state n st =
     (case st_tpcf_matrix st of
        None \<Rightarrow> True
      | Some (Mat2 m) \<Rightarrow> dims_2d (length m) n m
      | Some (Mat3 m) \<Rightarrow> False)"

text \<open>The matrix of auto mode is symmetric in its two bin indices.\<close>

definition symmetric_3d :: "nat \<Rightarrow> real list list list \<Rightarrow> bool" where
  "symmetric_3d n m = (\<forall>s < length m. \<forall>i < n. \<forall>j < n. m ! s ! i ! j = m ! s ! j ! i)"

definition sym_state :: "nat \<Rightarrow> tab_state \<Rightarrow> bool" where
  "sym_state n st =
     (auto_state n st \<and> (\<forall>m. st_tpcf_matrix st = Some (Mat3 m) \<longrightarrow> symmetric_3d n m))"



text \<open>
  Lines 239 to 242: the value that cross mode stores for a sample, that is the
  result of the call, replaced by its item 1 when the function is named
  \<^verbatim>\<open>delta_sigma\<close>.
\<close>

definition cross_value ::
  "'a callable \<Rightarrow> 'a list \<Rightarrow> (string \<times> 'a) list \<Rightarrow> position list \<Rightarrow> error + retval" where
  "cross_value tpcf args kwargs sample =
     (case tpcf_call tpcf sample args None kwargs of
        Inl e \<Rightarrow> Inl e
      | Inr xi0 \<Rightarrow> if tpcf_name tpcf = ''delta_sigma'' then index_1 xi0 else Inr xi0)"

text \<open>
  The contract of the correlation function: the arrays stored for the non-empty
  bins all have one shape and one number of elements.
\<close>

definition fixed_layout ::
  "'a callable \<Rightarrow> 'a list \<Rightarrow> (string \<times> 'a) list \<Rightarrow> nat \<Rightarrow> position list list \<Rightarrow> bool" where
  "fixed_layout tpcf args kwargs n pos =
     (\<forall>j < n. \<forall>k < n. \<forall>a b.
         pos ! j \<noteq> [] \<longrightarrow> pos ! k \<noteq> [] \<longrightarrow>
         cross_value tpcf args kwargs (pos ! j) = Inr (Arr a) \<longrightarrow>
         cross_value tpcf args kwargs (pos ! k) = Inr (Arr b) \<longrightarrow>
         nd_shape a = nd_shape b \<and> length (nd_data a) = length (nd_data b))"

text \<open>Column \<open>i\<close> of the matrix of cross mode, \<^verbatim>\<open>tpcf_matrix[:, i]\<close>.\<close>

definition column :: "real list list \<Rightarrow> nat \<Rightarrow> real list" where
  "column m i = map (\<lambda>row. row ! i) m"

text \<open>
  The invariant of the loop of cross mode: the matrix, once bound, has as many
  rows as the array stored first has elements, the recorded shape is that array's,
  and the column of every bin for which the call was made holds the array stored
  for that bin.
\<close>

definition cross_inv ::
  "'a callable \<Rightarrow> 'a list \<Rightarrow> (string \<times> 'a) list \<Rightarrow> nat \<Rightarrow> position list list \<Rightarrow> tab_state \<Rightarrow> bool" where
  "cross_inv tpcf args kwargs n pos st =
     (cross_state n st \<and>
      (st_tpcf_matrix st = None \<longrightarrow> st_calls st = []) \<and>
      (\<forall>j. (j, j) \<in> set (st_calls st) \<longrightarrow> j < n \<and> pos ! j \<noteq> []) \<and>
      (\<forall>m. st_tpcf_matrix st = Some (Mat2 m) \<longrightarrow>
         (\<exists>f a0. f < n \<and> pos ! f \<noteq> [] \<and> cross_value tpcf args kwargs (pos ! f) = Inr (Arr a0) \<and>
                  length m = length (nd_data a0) \<and> st_tpcf_shape st = Some (nd_shape a0)) \<and>
         (\<forall>j. (j, j) \<in> set (st_calls st) \<longrightarrow>
            (\<exists>a. cross_value tpcf args kwargs (pos ! j) = Inr (Arr a) \<and> column m j = nd_data a))))"

text \<open>
  Galaxy assignment as the specification words it: a galaxy, with its percentile,
  belongs to bin \<open>i\<close> when its primary property lies in the interval that is open at
  the lower edge and closed at the upper edge, its type is the bin's, and, with
  the secondary split, its percentile is on the bin's side of the threshold.
\<close>

definition assigned_to_bin :: "bin_table \<Rightarrow> bool \<Rightarrow> real \<Rightarrow> nat \<Rightarrow> galaxy \<times> real \<Rightarrow> bool" where
  "assigned_to_bin t sec_hp sec_split i gp =
     (10 powr (c_log_prim_haloprop_min t ! i) < gal_prim (fst gp) \<and>
      gal_prim (fst gp) \<le> 10 powr (c_log_prim_haloprop_max t ! i) \<and>
      c_gal_type t ! i = gal_gal_type (fst gp) \<and>
      (sec_hp \<longrightarrow>
         (case c_sec t of
            None \<Rightarrow> False
          | Some sec \<Rightarrow> if sec ! i = 0 then snd gp < sec_split else snd gp \<ge> sec_split)))"

subsection \<open>Example data\<close>

text \<open>A small bundle of two bins, used to run the definitions on concrete inputs.\<close>

definition example_attrs :: "(string \<times> attr) list" where
  "example_attrs =
     [(''tpcf'', AStr ''wp''), (''mode'', AStr ''auto''), (''simname'', AStr ''bolplanck''),
      (''redshift'', ANum 0), (''Num_ptcl_requirement'', ANum 300),
      (''prim_haloprop_key'', AStr ''halo_mvir''), (''sec_haloprop'', ABool False),
      (''sec_haloprop_key'', AStr ''halo_nfw_conc''), (''sec_haloprop_split'', ANum (1 / 2))]"

definition example_table :: bin_table where
  "example_table =
     \<lparr>c_n_h = [3, 3], c_sec = None, c_gal_type = [''centrals'', ''satellites''],
      c_log_prim_haloprop_min = [0, 0], c_log_prim_haloprop_max = [2, 2],
      c_prim_haloprop = [10, 10]\<rparr>"

definition example_halotab :: "nat list \<Rightarrow> nat tabcorr" where
  "example_halotab args =
     \<lparr>init = True, attrs = example_attrs, gal_type = example_table, tpcf_args = args,
      tpcf_kwargs = [(''pi_max'', 40)], tpcf_shape = [1], tpcf_matrix = Mat3 [[[1, 2], [2, 5]]]\<rparr>"

text \<open>
  A run of \<^verbatim>\<open>tabulate\<close>: two host halos and a subhalo, one property bin, and four
  mock galaxies. The third galaxy names a halo that is not in the catalogue, and
  the primary property of the fourth is exactly the lower edge of the bin. The
  correlation function counts pairs.
\<close>

definition example_halocat :: halocat where
  "example_halocat =
     \<lparr>halo_table = [\<lparr>halo_id = 1, halo_pid = - 1, halo_prim = 1\<rparr>,
                    \<lparr>halo_id = 2, halo_pid = - 1, halo_prim = 100\<rparr>,
                    \<lparr>halo_id = 3, halo_pid = 2, halo_prim = 50\<rparr>],
      particle_mass = 1 / 300, Lbox = [2, 2, 2], redshift = 0, simname = ''bolplanck''\<rparr>"

definition example_params :: "string \<Rightarrow> tabulate_params" where
  "example_params md =
     \<lparr>mode = md, Num_ptcl_requirement = 300, prim_haloprop_key = ''halo_mvir'',
      sec_haloprop = False, sec_haloprop_key = ''halo_nfw_conc'', sec_haloprop_split = 1 / 2,
      prim_haloprop_bins = 1\<rparr>"

definition example_gals :: "galaxy list" where
  "example_gals =
     [\<lparr>gal_halo_id = 2, gal_prim = 100, gal_gal_type = ''centrals''\<rparr>,
      \<lparr>gal_halo_id = 2, gal_prim = 100, gal_gal_type = ''satellites''\<rparr>,
      \<lparr>gal_halo_id = 7, gal_prim = 10, gal_gal_type = ''centrals''\<rparr>,
      \<lparr>gal_halo_id = 1, gal_prim = 1, gal_gal_type = ''centrals''\<rparr>]"

definition example_collaborators :: "galaxy list \<Rightarrow> collaborators" where
  "example_collaborators gals =
     \<lparr>compute_conditional_percentiles = (\<lambda>hs. Inr (map (\<lambda>h. 1 / 2) hs)),
      mock_galaxy_table = gals,
      return_xyz_formatted_array = (\<lambda>gs. map (\<lambda>g. (gal_prim g, 0, 0)) gs)\<rparr>"

definition example_tpcf :: "string \<Rightarrow> nat callable" where
  "example_tpcf nm =
     \<lparr>tpcf_name = nm,
      tpcf_call = (\<lambda>sample1 args kw kwargs.
         Inr (Arr \<lparr>nd_shape = [1],
                   nd_data = [real (length sample1) *
                     real (case kw of
                             None \<Rightarrow> 1
                           | Some a \<Rightarrow> (case sample2 a of
                                          None \<Rightarrow> length sample1
                                        | Some s \<Rightarrow> length s))]\<rparr>))\<rparr>"

text \<open>What that run returns in auto mode.\<close>

definition example_result :: "nat tabcorr" where
  "example_result =
     \<lparr>init = True,
      attrs = [(''tpcf'', AStr ''wp''), (''mode'', AStr ''auto''), (''simname'', AStr ''bolplanck''),
               (''redshift'', ANum 0), (''Num_ptcl_requirement'', ANum 300),
               (''prim_haloprop_key'', AStr ''halo_mvir''), (''sec_haloprop'', ABool False),
               (''sec_haloprop_key'', AStr ''halo_nfw_conc''), (''sec_haloprop_split'', ANum (1 / 2))],
      gal_type = \<lparr>c_n_h = [1 / 4, 1 / 4], c_sec = None, c_gal_type = [''centrals'', ''satellites''],
                  c_log_prim_haloprop_min = [0, 0], c_log_prim_haloprop_max = [2, 2],
                  c_prim_haloprop = [10, 10]\<rparr>,
      tpcf_args = [7], tpcf_kwargs = [(''pi_max'', 40)], tpcf_shape = [1],
      tpcf_matrix = Mat3 [[[4, 2], [2, 1]]]\<rparr>"

text \<open>
  A correlation function named \<^verbatim>\<open>delta_sigma\<close>: it returns two arrays, the radial
  bins and the profile.
\<close>

definition example_delta_sigma :: "nat callable" where
  "example_delta_sigma =
     \<lparr>tpcf_name = ''delta_sigma'',
      tpcf_call = (\<lambda>sample1 args kw kwargs.
         Inr (Tup [\<lparr>nd_shape = [2], nd_data = [1, 2]\<rparr>,
                   \<lparr>nd_shape = [2],
                    nd_data = [real (length sample1), 2 * real (length sample1)]\<rparr>]))\<rparr>"

text \<open>The same catalogue with no host halo left.\<close>

definition example_subhalos_only :: halocat where
  "example_subhalos_only =
     example_halocat\<lparr>halo_table := [\<lparr>halo_id = 3, halo_pid = 2, halo_prim = 50\<rparr>]\<rparr>"

section \<open>Theorems\<close>

subsection \<open>Persistence\<close>

text \<open>
  Claim C5. For every TabCorr object and every file path, \<^verbatim>\<open>write\<close> fails when the
  target file already exists, and it fails before anything has been written: the
  call returns the error and leaves the whole file system, the existing file
  included, as it was.
\<close>

theorem write_existing_file_fails:
  "fs fname = Some existing \<Longrightarrow> tabcorr_write self fname fs = (Some OSError, fs)"
  by (simp add: tabcorr_write_def)


theorem write_existing_file_fails_witness:
  "(Map.empty(''tab.hdf5'' \<mapsto> h5_empty)) ''tab.hdf5'' = Some h5_empty
   \<and> tabcorr_write (example_halotab [7]) ''tab.hdf5'' (Map.empty(''tab.hdf5'' \<mapsto> h5_empty))
       = (Some OSError, Map.empty(''tab.hdf5'' \<mapsto> h5_empty))"
  using write_existing_file_fails [of "Map.empty(''tab.hdf5'' \<mapsto> h5_empty)" "''tab.hdf5''" h5_empty "example_halotab [7]"]
  by simp

subsection \<open>The example run\<close>

lemma log10_100: "log 10 100 = (2::real)"
  using log_nat_power [of "10::real" 10 2] by simp

lemma example_gal_type:
  "tabulate_gal_type [1, 100] [1 / 2, 1 / 2] False (1 / 2) 1 8 =
     Inr \<lparr>c_n_h = [1 / 4, 1 / 4], c_sec = None, c_gal_type = [''centrals'', ''satellites''],
          c_log_prim_haloprop_min = [0, 0], c_log_prim_haloprop_max = [2, 2],
          c_prim_haloprop = [10, 10]\<rparr>"
  by (simp add: tabulate_gal_type_def np_histogram_def log10_100 np_linspace_def histogram_counts_def
        in_histogram_bin_def np_tile_def Let_def numeral_2_eq_2)

lemma example_run:
  "tabulate example_halocat (example_tpcf ''wp'') [7] (example_params ''auto'') [(''pi_max'', 40)]
     (example_collaborators example_gals) = Inr example_result"
  apply (simp add: tabulate_def example_halocat_def example_params_def example_collaborators_def
        example_gal_type)
  apply (simp add: example_gals_def tabulate_percentile_def crossmatch_def
        upt_rec [of _ "length _"] upt_rec [of _ "Suc _"])
  apply (simp add: tabulate_pos_def table_len_def numeral_2_eq_2 bin_mask_def np_select_def)
  apply (simp add: tabulate_matrix_def auto_pair_def example_tpcf_def ravel_def shape_of_def
        set_3d_def np_broadcast_to_def example_result_def)
  done

subsection \<open>The bin table\<close>

lemma length_np_tile: "length (np_tile xs n) = n * length xs"
  by (induction n) (simp_all add: np_tile_def)

lemma nth_np_tile: "i < n * length xs \<Longrightarrow> np_tile xs n ! i = xs ! (i mod length xs)"
proof (induction n arbitrary: i)
  case 0
  then show ?case by simp
next
  case (Suc n)
  have unfold: "np_tile xs (Suc n) = xs @ np_tile xs n"
    by (simp add: np_tile_def)
  show ?case
  proof (cases "i < length xs")
    case True
    then show ?thesis by (simp add: unfold nth_append)
  next
    case False
    then have "i - length xs < n * length xs" using Suc.prems by simp
    then have "np_tile xs n ! (i - length xs) = xs ! ((i - length xs) mod length xs)"
      by (rule Suc.IH)
    moreover have "(i - length xs) mod length xs = i mod length xs"
      using False by (simp add: le_mod_geq)
    ultimately show ?thesis using False by (simp add: unfold nth_append)
  qed
qed

lemma nth_np_tile_shift:
  assumes "i + k * length xs < n * length xs"
  shows "np_tile xs n ! (k * length xs + i) = np_tile xs n ! i"
proof -
  have "i < n * length xs" using assms by simp
  moreover have "k * length xs + i < n * length xs" using assms by (simp add: add.commute)
  ultimately show ?thesis by (simp add: nth_np_tile)
qed

lemma length_np_repeat: "length (np_repeat xs n) = n * length xs"
  by (induction xs) (simp_all add: np_repeat_def)

lemma length_np_linspace: "length (np_linspace a b n) = n"
  by (simp add: np_linspace_def)

lemma length_histogram_counts: "length (histogram_counts a edges) = length edges - 1"
  by (simp add: histogram_counts_def)

lemma np_histogram_Inr:
  assumes "np_histogram a bins = Inr (n_h, edges)"
  shows "1 \<le> bins" and "length edges = nat bins + 1" and "length n_h = nat bins"
  using assms
  by (auto simp: np_histogram_def Let_def length_np_linspace length_histogram_counts split: if_splits)

lemma np_histogram_edges_Inr:
  assumes "np_histogram_edges a edges = Inr (n_h, edges')"
  shows "edges' = edges" and "length n_h = length edges - 1"
  using assms
  by (auto simp: np_histogram_edges_def length_histogram_counts split: if_splits)

lemma tabulate_gal_type_InrD:
  assumes "tabulate_gal_type prim percentile sec_hp sec_split bins volume = Inr t"
  obtains n_h edges X where
    "\<forall>x \<in> set prim. 0 < x"
    "np_histogram (map (log 10) prim) bins = Inr (n_h, edges)"
    "X = (if sec_hp
          then histogram_counts (map (\<lambda>(x, p). log 10 x) (filter (\<lambda>(x, p). p < sec_split) (zip prim percentile))) edges @
               histogram_counts (map (\<lambda>(x, p). log 10 x) (filter (\<lambda>(x, p). p \<ge> sec_split) (zip prim percentile))) edges
          else n_h)"
    "length X = nat bins * (if sec_hp then 2 else 1)"
    "c_n_h t = map (\<lambda>c. real c / volume) (np_tile X 2)"
    "c_sec t = (if sec_hp then Some (np_tile (np_repeat [0, 1] (nat bins)) 2) else None)"
    "c_gal_type t = replicate (length X) ''centrals'' @ replicate (length X) ''satellites''"
    "c_log_prim_haloprop_min t = np_tile (butlast edges) (2 * (if sec_hp then 2 else 1))"
    "c_log_prim_haloprop_max t = np_tile (tl edges) (2 * (if sec_hp then 2 else 1))"
    "c_prim_haloprop t = map2 (\<lambda>lo hi. 10 powr (0.5 * (lo + hi)))
        (c_log_prim_haloprop_min t) (c_log_prim_haloprop_max t)"
proof -
  from assms have pos: "\<forall>x \<in> set prim. 0 < x"
    by (auto simp: tabulate_gal_type_def split: if_splits)
  from assms obtain n_h edges where h: "np_histogram (map (log 10) prim) bins = Inr (n_h, edges)"
    by (auto simp: tabulate_gal_type_def split: if_splits sum.splits)
  note hl = np_histogram_Inr[OF h]
  have bl: "length (butlast edges) = nat bins" "length (tl edges) = nat bins"
    using hl by simp_all
  show ?thesis
  proof (cases sec_hp)
    case False
    have "length (np_tile n_h 2) div nat bins = 2"
      using hl by (simp add: length_np_tile)
    with assms h False hl bl show ?thesis
      apply (intro that[of n_h edges n_h] pos)
      apply (auto simp: tabulate_gal_type_def Let_def length_np_tile split: if_splits)
      done
  next
    case True
    define X where "X = histogram_counts (map (\<lambda>(x, p). log 10 x) (filter (\<lambda>(x, p). p < sec_split) (zip prim percentile))) edges @
               histogram_counts (map (\<lambda>(x, p). log 10 x) (filter (\<lambda>(x, p). p \<ge> sec_split) (zip prim percentile))) edges"
    have lx: "length X = nat bins * 2"
      using hl by (simp add: X_def length_histogram_counts)
    have d: "length (np_tile X 2) div nat bins = 4"
      using hl lx by (simp add: length_np_tile)
    from assms h True hl bl lx d show ?thesis
      apply (intro that[of n_h edges X] pos)
      apply (auto simp: tabulate_gal_type_def np_histogram_edges_def Let_def length_np_tile length_np_repeat X_def[symmetric]
                  split: if_splits)
      done
  qed
qed

lemma nth_np_linspace: "i < n \<Longrightarrow> np_linspace a b n ! i = a + real i * ((b - a) / real (n - 1))"
  by (simp add: np_linspace_def)

lemma sorted_np_linspace:
  assumes "a \<le> b"
  shows "sorted (np_linspace a b n)"
proof -
  have step: "0 \<le> (b - a) / real (n - 1)"
    using assms by simp
  have "np_linspace a b n ! i \<le> np_linspace a b n ! j" if "i \<le> j" "j < n" for i j
  proof -
    have "real i * ((b - a) / real (n - 1)) \<le> real j * ((b - a) / real (n - 1))"
      using that(1) step by (intro mult_right_mono) simp_all
    then show ?thesis using that by (simp add: nth_np_linspace)
  qed
  then show ?thesis
    by (simp add: sorted_iff_nth_mono length_np_linspace)
qed

lemma np_histogram_sorted:
  assumes "np_histogram a bins = Inr (n_h, edges)"
  shows "sorted edges"
proof -
  have "Min (set a) \<le> Max (set a)" if "a \<noteq> []"
    using that by (simp add: Min_le_iff)
  then show ?thesis using assms
    by (auto simp: np_histogram_def Let_def split: if_splits intro!: sorted_np_linspace)
qed

lemma tabulate_gal_type_total:
  assumes "1 \<le> bins" and "\<forall>x \<in> set prim. 0 < x"
  shows "\<exists>t. tabulate_gal_type prim percentile sec_hp sec_split bins volume = Inr t"
proof -
  obtain n_h edges where h: "np_histogram (map (log 10) prim) bins = Inr (n_h, edges)"
    using assms(1) by (auto simp: np_histogram_def Let_def)
  note hl = np_histogram_Inr[OF h] and hs = np_histogram_sorted[OF h]
  have bl: "length (butlast edges) = nat bins" "length (tl edges) = nat bins"
    using hl by simp_all
  have nz: "nat bins \<noteq> 0" using assms(1) by simp
  have pos: "\<not> (\<exists>x \<in> set prim. x \<le> 0)" using assms(2) by (auto simp: not_le)
  show ?thesis
  proof (cases sec_hp)
    case False
    have "length (np_tile n_h 2) div nat bins = 2"
      using hl by (simp add: length_np_tile)
    with h False hl bl nz pos show ?thesis
      by (simp add: tabulate_gal_type_def Let_def length_np_tile)
  next
    case True
    have d: "(2 * (nat bins + nat bins)) div nat bins = 4"
      using nz by simp
    from h True hl bl nz pos hs d show ?thesis
      by (simp add: tabulate_gal_type_def np_histogram_edges_def Let_def length_np_tile
            length_np_repeat length_histogram_counts)
  qed
qed

text \<open>
  Claim C8. When \<^verbatim>\<open>tabulate\<close> has built the bin table, the table has exactly
  \<open>2 \<times> prim_haloprop_bins \<times> (2 if the secondary split is on, else 1)\<close> rows, every
  column has that length, the column \<^verbatim>\<open>sec\<close> exists exactly when the split is on,
  the first half of the rows are centrals and the second half satellites, and the
  satellite row of every central row has the same \<^verbatim>\<open>n_h\<close>, the same edges, the
  same bin centre and the same \<^verbatim>\<open>sec\<close> value.
\<close>

theorem tabulate_gal_type_layout:
  assumes "tabulate_gal_type prim percentile sec_hp sec_split bins volume = Inr t"
  shows "table_len t = 2 * nat bins * (if sec_hp then 2 else 1)
       \<and> length (c_gal_type t) = table_len t
       \<and> length (c_log_prim_haloprop_min t) = table_len t
       \<and> length (c_log_prim_haloprop_max t) = table_len t
       \<and> length (c_prim_haloprop t) = table_len t
       \<and> (case c_sec t of None \<Rightarrow> \<not> sec_hp | Some s \<Rightarrow> sec_hp \<and> length s = table_len t)
       \<and> (\<forall>i < table_len t div 2.
             c_gal_type t ! i = ''centrals''
           \<and> c_gal_type t ! (table_len t div 2 + i) = ''satellites''
           \<and> c_n_h t ! (table_len t div 2 + i) = c_n_h t ! i
           \<and> c_log_prim_haloprop_min t ! (table_len t div 2 + i) = c_log_prim_haloprop_min t ! i
           \<and> c_log_prim_haloprop_max t ! (table_len t div 2 + i) = c_log_prim_haloprop_max t ! i
           \<and> c_prim_haloprop t ! (table_len t div 2 + i) = c_prim_haloprop t ! i
           \<and> (\<forall>s. c_sec t = Some s \<longrightarrow> s ! (table_len t div 2 + i) = s ! i))"
proof -
  from assms obtain n_h edges X where
    h: "np_histogram (map (log 10) prim) bins = Inr (n_h, edges)"
    and lx: "length X = nat bins * (if sec_hp then 2 else 1)"
    and nh: "c_n_h t = map (\<lambda>c. real c / volume) (np_tile X 2)"
    and sec: "c_sec t = (if sec_hp then Some (np_tile (np_repeat [0, 1] (nat bins)) 2) else None)"
    and gt: "c_gal_type t = replicate (length X) ''centrals'' @ replicate (length X) ''satellites''"
    and mn: "c_log_prim_haloprop_min t = np_tile (butlast edges) (2 * (if sec_hp then 2 else 1))"
    and mx: "c_log_prim_haloprop_max t = np_tile (tl edges) (2 * (if sec_hp then 2 else 1))"
    and pr: "c_prim_haloprop t = map2 (\<lambda>lo hi. 10 powr (0.5 * (lo + hi)))
        (c_log_prim_haloprop_min t) (c_log_prim_haloprop_max t)"
    by (rule tabulate_gal_type_InrD)
  note hl = np_histogram_Inr[OF h]
  define r where "r = (if sec_hp then 2 else (1::nat))"
  have bl: "length (butlast edges) = nat bins" "length (tl edges) = nat bins"
    using hl by simp_all
  have len: "table_len t = 2 * length X"
    by (simp add: table_len_def nh length_np_tile)
  have half: "table_len t div 2 = length X"
    by (simp add: len)
  have lX: "length X = r * nat bins"
    by (simp add: lx r_def)
  have l1: "table_len t = 2 * nat bins * (if sec_hp then 2 else 1)"
    by (simp add: len lx)
  have l2: "length (c_gal_type t) = table_len t"
    by (simp add: gt len)
  have l3: "length (c_log_prim_haloprop_min t) = table_len t"
    using hl by (simp add: mn len lx length_np_tile)
  have l4: "length (c_log_prim_haloprop_max t) = table_len t"
    using hl by (simp add: mx len lx length_np_tile)
  have l5: "length (c_prim_haloprop t) = table_len t"
    by (simp add: pr l3 l4)
  have l6: "case c_sec t of None \<Rightarrow> \<not> sec_hp | Some s \<Rightarrow> sec_hp \<and> length s = table_len t"
    by (simp add: sec len lx length_np_tile length_np_repeat)
  have rows: "c_gal_type t ! i = ''centrals''
           \<and> c_gal_type t ! (table_len t div 2 + i) = ''satellites''
           \<and> c_n_h t ! (table_len t div 2 + i) = c_n_h t ! i
           \<and> c_log_prim_haloprop_min t ! (table_len t div 2 + i) = c_log_prim_haloprop_min t ! i
           \<and> c_log_prim_haloprop_max t ! (table_len t div 2 + i) = c_log_prim_haloprop_max t ! i
           \<and> c_prim_haloprop t ! (table_len t div 2 + i) = c_prim_haloprop t ! i
           \<and> (\<forall>s. c_sec t = Some s \<longrightarrow> s ! (table_len t div 2 + i) = s ! i)"
    if i: "i < table_len t div 2" for i
  proof -
    have iX: "i < length X" using i by (simp add: half)
    have a: "c_gal_type t ! i = ''centrals''"
      using iX by (simp add: gt nth_append)
    have b: "c_gal_type t ! (table_len t div 2 + i) = ''satellites''"
      using iX by (simp add: gt half nth_append)
    have t2: "np_tile X 2 ! (length X + i) = np_tile X 2 ! i"
      using nth_np_tile_shift[of i 1 X 2] iX by simp
    have c: "c_n_h t ! (table_len t div 2 + i) = c_n_h t ! i"
      using iX t2 by (simp add: nh half length_np_tile)
    have sh: "np_tile ys (2 * r) ! (length X + i) = np_tile ys (2 * r) ! i"
      if "length ys = nat bins" for ys :: "real list"
    proof -
      have "i + r * length ys < (2 * r) * length ys"
        using iX that by (simp add: lX)
      from nth_np_tile_shift[OF this] show ?thesis
        using that by (simp add: lX)
    qed
    have d: "c_log_prim_haloprop_min t ! (table_len t div 2 + i) = c_log_prim_haloprop_min t ! i"
      unfolding mn half r_def[symmetric] by (rule sh[OF bl(1)])
    have e: "c_log_prim_haloprop_max t ! (table_len t div 2 + i) = c_log_prim_haloprop_max t ! i"
      unfolding mx half r_def[symmetric] by (rule sh[OF bl(2)])
    have f: "c_prim_haloprop t ! (table_len t div 2 + i) = c_prim_haloprop t ! i"
      using i d e l3 l4 by (simp add: pr)
    have g: "\<forall>s. c_sec t = Some s \<longrightarrow> s ! (table_len t div 2 + i) = s ! i"
    proof (intro allI impI)
      fix s assume s: "c_sec t = Some s"
      then have sh: "sec_hp" and sv: "s = np_tile (np_repeat [0, 1] (nat bins)) 2"
        using sec by (auto split: if_splits)
      have lr: "length (np_repeat [0::int, 1] (nat bins)) = length X"
        using sh by (simp add: length_np_repeat lx)
      have "i + 1 * length (np_repeat [0::int, 1] (nat bins)) < 2 * length (np_repeat [0::int, 1] (nat bins))"
        using iX lr by simp
      from nth_np_tile_shift[OF this] show "s ! (table_len t div 2 + i) = s ! i"
        by (simp add: sv half lr)
    qed
    from a b c d e f g show ?thesis by blast
  qed
  from l1 l2 l3 l4 l5 l6 rows show ?thesis by blast
qed

theorem tabulate_gal_type_layout_witness:
  "\<exists>t. tabulate_gal_type [1, 10, 100] [1 / 5, 7 / 10, 2 / 5] True (1 / 2) 2 8 = Inr t
     \<and> table_len t = 8
     \<and> c_gal_type t ! 1 = ''centrals''
     \<and> c_gal_type t ! 5 = ''satellites''
     \<and> c_n_h t ! 5 = c_n_h t ! 1
     \<and> c_log_prim_haloprop_min t ! 5 = c_log_prim_haloprop_min t ! 1
     \<and> c_log_prim_haloprop_max t ! 5 = c_log_prim_haloprop_max t ! 1
     \<and> c_prim_haloprop t ! 5 = c_prim_haloprop t ! 1
     \<and> (\<exists>s. c_sec t = Some s \<and> length s = 8 \<and> s ! 5 = s ! 1)"
proof -
  obtain t where t: "tabulate_gal_type [1, 10, 100] [1 / 5, 7 / 10, 2 / 5] True (1 / 2) 2 8 = Inr t"
    using tabulate_gal_type_total [of 2 "[1, 10, 100]" "[1 / 5, 7 / 10, 2 / 5]" True "1 / 2" 8]
    by auto
  from tabulate_gal_type_layout [OF t] have len: "table_len t = 8" by simp
  from tabulate_gal_type_layout [OF t] have
    sec: "case c_sec t of None \<Rightarrow> False | Some s \<Rightarrow> length s = table_len t"
    by (auto split: option.splits)
  from tabulate_gal_type_layout [OF t] have
    rows: "\<forall>i < 4. c_gal_type t ! i = ''centrals''
           \<and> c_gal_type t ! (4 + i) = ''satellites''
           \<and> c_n_h t ! (4 + i) = c_n_h t ! i
           \<and> c_log_prim_haloprop_min t ! (4 + i) = c_log_prim_haloprop_min t ! i
           \<and> c_log_prim_haloprop_max t ! (4 + i) = c_log_prim_haloprop_max t ! i
           \<and> c_prim_haloprop t ! (4 + i) = c_prim_haloprop t ! i
           \<and> (\<forall>s. c_sec t = Some s \<longrightarrow> s ! (4 + i) = s ! i)"
    using len by simp
  from rows have r1: "c_gal_type t ! 1 = ''centrals''
           \<and> c_gal_type t ! (4 + 1) = ''satellites''
           \<and> c_n_h t ! (4 + 1) = c_n_h t ! 1
           \<and> c_log_prim_haloprop_min t ! (4 + 1) = c_log_prim_haloprop_min t ! 1
           \<and> c_log_prim_haloprop_max t ! (4 + 1) = c_log_prim_haloprop_max t ! 1
           \<and> c_prim_haloprop t ! (4 + 1) = c_prim_haloprop t ! 1
           \<and> (\<forall>s. c_sec t = Some s \<longrightarrow> s ! (4 + 1) = s ! 1)"
    by (rule allE [of _ 1]) simp
  obtain s where s: "c_sec t = Some s" "length s = 8"
    using sec len by (cases "c_sec t") simp_all
  from r1 s show ?thesis
    using t len by (intro exI [of _ t]) simp
qed

subsection \<open>Loops and the matrix in auto mode\<close>

lemma for_loop_append:
  "for_loop (xs @ ys) body s =
     (case for_loop xs body s of Inl e \<Rightarrow> Inl e | Inr s' \<Rightarrow> for_loop ys body s')"
  by (induction xs arbitrary: s) (auto split: sum.splits)

lemma for_loop_invariant:
  assumes "for_loop xs body s = Inr s'"
    and "P s"
    and "\<And>x a b. x \<in> set xs \<Longrightarrow> P a \<Longrightarrow> body x a = Inr b \<Longrightarrow> P b"
  shows "P s'"
  using assms
proof (induction xs arbitrary: s)
  case Nil
  then show ?case by simp
next
  case (Cons x xs)
  from Cons.prems(1) obtain s1 where s1: "body x s = Inr s1" and rest: "for_loop xs body s1 = Inr s'"
    by (auto split: sum.splits)
  have "P s1" using Cons.prems(3) [of x s s1] Cons.prems(2) s1 by simp
  moreover have "P b" if "y \<in> set xs" "P a" "body y a = Inr b" for y a b
    using Cons.prems(3) [of y a b] that by simp
  ultimately show ?case using Cons.IH [OF rest] by blast
qed

lemma np_broadcast_to_Inr:
  assumes "np_broadcast_to v k = Inr w"
  shows "length w = k" and "length v = k \<Longrightarrow> w = v"
  using assms by (auto simp: np_broadcast_to_def split: if_splits)

lemma dims_3d_nth:
  assumes "dims_3d K n m" "s < K"
  shows "length (m ! s) = n" and "a < n \<Longrightarrow> length (m ! s ! a) = n"
proof -
  have p: "m ! s \<in> set m" using assms by (simp add: dims_3d_def)
  then show l: "length (m ! s) = n" using assms(1) by (simp add: dims_3d_def)
  assume "a < n"
  then have "m ! s ! a \<in> set (m ! s)" using l by simp
  then show "length (m ! s ! a) = n" using assms(1) p by (auto simp: dims_3d_def)
qed

lemma dims_3d_zeros: "dims_3d K n (replicate K (replicate n (replicate n 0)))"
  by (auto simp: dims_3d_def)

lemma set_3d_Inr:
  assumes "set_3d m i k v = Inr m'" and d: "dims_3d K n m" and "i < n" "k < n"
  obtains w where "np_broadcast_to v K = Inr w" "dims_3d K n m'"
    "\<forall>s < K. \<forall>a < n. \<forall>b < n. m' ! s ! a ! b = (if a = i \<and> b = k then w ! s else m ! s ! a ! b)"
proof -
  have lm: "length m = K" using d by (simp add: dims_3d_def)
  from assms(1) obtain w where w: "np_broadcast_to v K = Inr w"
    and m': "m' = map2 (\<lambda>plane x. plane[i := (plane ! i)[k := x]]) m w"
    by (auto simp: set_3d_def lm split: if_splits sum.splits)
  have lw: "length w = K" using np_broadcast_to_Inr(1) [OF w] .
  have d': "dims_3d K n m'"
    unfolding dims_3d_def
  proof (intro conjI ballI)
    show "length m' = K" by (simp add: m' lm lw)
  next
    fix plane assume "plane \<in> set m'"
    then obtain s where s: "s < K" and p: "plane = (m ! s)[i := (m ! s ! i)[k := w ! s]]"
      by (auto simp: m' in_set_conv_nth lm lw)
    show "length plane = n" using dims_3d_nth(1) [OF d s] by (simp add: p)
  next
    fix plane row assume "plane \<in> set m'" "row \<in> set plane"
    then obtain s where s: "s < K" and p: "plane = (m ! s)[i := (m ! s ! i)[k := w ! s]]"
      by (auto simp: m' in_set_conv_nth lm lw)
    from \<open>row \<in> set plane\<close> obtain a where a: "a < n" and r: "row = plane ! a"
      using dims_3d_nth(1) [OF d s] by (auto simp: p in_set_conv_nth)
    show "length row = n"
      using dims_3d_nth [OF d s] a assms(3) by (simp add: r p nth_list_update)
  qed
  have cells: "\<forall>s < K. \<forall>a < n. \<forall>b < n. m' ! s ! a ! b = (if a = i \<and> b = k then w ! s else m ! s ! a ! b)"
  proof (intro allI impI)
    fix s a b assume s: "s < K" and a: "a < n" and b: "b < n"
    have "m' ! s = (m ! s)[i := (m ! s ! i)[k := w ! s]]"
      using s by (simp add: m' lm lw)
    then show "m' ! s ! a ! b = (if a = i \<and> b = k then w ! s else m ! s ! a ! b)"
      using dims_3d_nth [OF d s] a b assms(3,4) by (simp add: nth_list_update)
  qed
  from w d' cells show ?thesis by (rule that)
qed

lemma set_3d_both:
  assumes s1: "set_3d m i k v = Inr m1" and s2: "set_3d m1 k i v = Inr m2"
    and d: "dims_3d K n m" and i: "i < n" and k: "k < n"
  obtains w where "np_broadcast_to v K = Inr w" "dims_3d K n m2"
    "\<forall>s < K. \<forall>a < n. \<forall>b < n.
       m2 ! s ! a ! b = (if (a = i \<and> b = k) \<or> (a = k \<and> b = i) then w ! s else m ! s ! a ! b)"
proof -
  obtain w where w: "np_broadcast_to v K = Inr w"
    and d1: "dims_3d K n m1"
    and c1: "\<forall>s < K. \<forall>a < n. \<forall>b < n. m1 ! s ! a ! b = (if a = i \<and> b = k then w ! s else m ! s ! a ! b)"
    by (rule set_3d_Inr [OF s1 d i k])
  obtain w' where w': "np_broadcast_to v K = Inr w'"
    and d2: "dims_3d K n m2"
    and c2: "\<forall>s < K. \<forall>a < n. \<forall>b < n. m2 ! s ! a ! b = (if a = k \<and> b = i then w' ! s else m1 ! s ! a ! b)"
    by (rule set_3d_Inr [OF s2 d1 k i])
  have ww: "w' = w" using w w' by simp
  have "\<forall>s < K. \<forall>a < n. \<forall>b < n.
       m2 ! s ! a ! b = (if (a = i \<and> b = k) \<or> (a = k \<and> b = i) then w ! s else m ! s ! a ! b)"
  proof (intro allI impI)
    fix s a b assume h: "s < K" "a < n" "b < n"
    have e2: "m2 ! s ! a ! b = (if a = k \<and> b = i then w ! s else m1 ! s ! a ! b)"
      using c2 [rule_format, OF h] unfolding ww .
    have e1: "m1 ! s ! a ! b = (if a = i \<and> b = k then w ! s else m ! s ! a ! b)"
      using c1 [rule_format, OF h] .
    show "m2 ! s ! a ! b = (if (a = i \<and> b = k) \<or> (a = k \<and> b = i) then w ! s else m ! s ! a ! b)"
      unfolding e2 e1 by argo
  qed
  with w d2 show ?thesis by (rule that)
qed

lemma auto_pair_skip:
  "pos ! i = [] \<or> pos ! k = [] \<Longrightarrow> auto_pair tpcf args kwargs n pos i k st = Inr st"
  by (auto simp: auto_pair_def)

lemma auto_pair_call:
  assumes ok: "auto_pair tpcf args kwargs n pos i k st = Inr st'"
    and ne: "pos ! i \<noteq> []" "pos ! k \<noteq> []"
    and i: "i < n" and k: "k < n"
    and inv: "auto_state n st"
  obtains xi v shp m0 m' w where
    "tpcf_call tpcf (pos ! i) args
       (Some \<lparr>sample2 = (if k \<noteq> i then Some (pos ! k) else None),
              do_auto = (i = k), do_cross = (\<not> i = k)\<rparr>) kwargs = Inr xi"
    "ravel xi = Inr v" "shape_of xi = Inr shp"
    "st_tpcf_matrix st = None \<longrightarrow> m0 = replicate (length v) (replicate n (replicate n 0))"
    "\<forall>m. st_tpcf_matrix st = Some (Mat3 m) \<longrightarrow> m0 = m"
    "dims_3d (length m0) n m0" "dims_3d (length m0) n m'"
    "np_broadcast_to v (length m0) = Inr w"
    "st_tpcf_matrix st' = Some (Mat3 m')"
    "st_tpcf_shape st' = (case st_tpcf_matrix st of None \<Rightarrow> Some shp | Some x \<Rightarrow> st_tpcf_shape st)"
    "st_calls st' = st_calls st @ [(i, k)]"
    "\<forall>s < length m0. \<forall>a < n. \<forall>b < n.
       m' ! s ! a ! b = (if (a = i \<and> b = k) \<or> (a = k \<and> b = i) then w ! s else m0 ! s ! a ! b)"
proof -
  note result = that
  define kw where "kw = Some \<lparr>sample2 = (if k \<noteq> i then Some (pos ! k) else None),
              do_auto = (i = k), do_cross = (\<not> i = k)\<rparr>"
  define alloc where "alloc (v::real list) shp = (case st_tpcf_matrix st of
                     None \<Rightarrow> st\<lparr>st_tpcf_matrix := Some (Mat3 (replicate (length v) (replicate n (replicate n 0)))),
                                  st_tpcf_shape := Some shp\<rparr>
                   | Some m \<Rightarrow> st)" for v shp
  define store where "store (v::real list) (st1::tab_state) = (case st_tpcf_matrix st1 of
          Some (Mat3 m) \<Rightarrow>
            (case set_3d m i k v of Inl e \<Rightarrow> Inl e | Inr m1 \<Rightarrow>
            (case set_3d m1 k i v of Inl e \<Rightarrow> Inl e | Inr m2 \<Rightarrow>
               Inr (st1\<lparr>st_tpcf_matrix := Some (Mat3 m2), st_calls := st_calls st @ [(i, k)]\<rparr>)))
        | _ \<Rightarrow> Inl IndexError)" for v st1
  have unfold: "auto_pair tpcf args kwargs n pos i k st =
      (case tpcf_call tpcf (pos ! i) args kw kwargs of
          Inl e \<Rightarrow> Inl e
        | Inr xi \<Rightarrow>
       (case ravel xi of Inl e \<Rightarrow> Inl e | Inr v \<Rightarrow>
       (case shape_of xi of Inl e \<Rightarrow> Inl e | Inr shp \<Rightarrow> store v (alloc v shp))))"
    using ne unfolding auto_pair_def kw_def alloc_def store_def Let_def by simp
  obtain xi where call: "tpcf_call tpcf (pos ! i) args kw kwargs = Inr xi"
    using ok unfolding unfold by (cases "tpcf_call tpcf (pos ! i) args kw kwargs") simp_all
  obtain v where v: "ravel xi = Inr v"
    using ok unfolding unfold call by (cases "ravel xi") simp_all
  obtain shp where shp: "shape_of xi = Inr shp"
    using ok unfolding unfold call by (cases "shape_of xi") (simp_all add: v)
  have st: "store v (alloc v shp) = Inr st'"
    using ok unfolding unfold by (simp add: call v shp)
  have finish: thesis
    if a: "st_tpcf_matrix st = None \<longrightarrow> m0 = replicate (length v) (replicate n (replicate n 0))"
    and b: "\<forall>m. st_tpcf_matrix st = Some (Mat3 m) \<longrightarrow> m0 = m"
    and d0: "dims_3d (length m0) n m0"
    and s1: "set_3d m0 i k v = Inr m1" and s2: "set_3d m1 k i v = Inr m2"
    and m': "st_tpcf_matrix st' = Some (Mat3 m2)"
    and sh: "st_tpcf_shape st' = (case st_tpcf_matrix st of None \<Rightarrow> Some shp | Some x \<Rightarrow> st_tpcf_shape st)"
    and cl: "st_calls st' = st_calls st @ [(i, k)]"
    for m0 m1 m2
  proof -
    obtain w where w: "np_broadcast_to v (length m0) = Inr w"
      and d2: "dims_3d (length m0) n m2"
      and cells: "\<forall>s < length m0. \<forall>a < n. \<forall>b < n.
         m2 ! s ! a ! b = (if (a = i \<and> b = k) \<or> (a = k \<and> b = i) then w ! s else m0 ! s ! a ! b)"
      by (rule set_3d_both [OF s1 s2 d0 i k])
    show thesis
      by (rule result [OF call [unfolded kw_def] v shp a b d0 d2 w m' sh cl cells])
  qed
  show thesis
  proof (cases "st_tpcf_matrix st")
    case None
    define z where "z = replicate (length v) (replicate n (replicate n (0::real)))"
    have al: "alloc v shp = st\<lparr>st_tpcf_matrix := Some (Mat3 z), st_tpcf_shape := Some shp\<rparr>"
      by (simp add: alloc_def None z_def)
    obtain m1 where s1: "set_3d z i k v = Inr m1"
      using st unfolding store_def al by (cases "set_3d z i k v") simp_all
    obtain m2 where s2: "set_3d m1 k i v = Inr m2"
      using st unfolding store_def al by (cases "set_3d m1 k i v") (simp_all add: s1)
    have "st\<lparr>st_tpcf_shape := Some shp, st_tpcf_matrix := Some (Mat3 m2),
                 st_calls := st_calls st @ [(i, k)]\<rparr> = st'"
      using st unfolding store_def al by (simp add: s1 s2)
    then have st': "st' = st\<lparr>st_tpcf_shape := Some shp, st_tpcf_matrix := Some (Mat3 m2),
                 st_calls := st_calls st @ [(i, k)]\<rparr>"
      by (rule sym)
    have dz: "dims_3d (length z) n z"
      unfolding z_def length_replicate by (rule dims_3d_zeros)
    have f1: "st_tpcf_matrix st = None \<longrightarrow> z = replicate (length v) (replicate n (replicate n 0))"
      by (simp add: z_def)
    have f2: "\<forall>m. st_tpcf_matrix st = Some (Mat3 m) \<longrightarrow> z = m"
      by (simp add: None)
    have f3: "st_tpcf_matrix st' = Some (Mat3 m2)" by (simp add: st')
    have f4: "st_tpcf_shape st' = (case st_tpcf_matrix st of None \<Rightarrow> Some shp | Some x \<Rightarrow> st_tpcf_shape st)"
      by (simp add: st' None)
    have f5: "st_calls st' = st_calls st @ [(i, k)]" by (simp add: st')
    show ?thesis by (rule finish [OF f1 f2 dz s1 s2 f3 f4 f5])
  next
    case (Some x)
    then obtain m where x: "x = Mat3 m" and dm: "dims_3d (length m) n m"
      using inv by (cases x) (auto simp: auto_state_def)
    have al: "alloc v shp = st"
      by (simp add: alloc_def Some)
    have sm: "st_tpcf_matrix st = Some (Mat3 m)" using Some x by simp
    obtain m1 where s1: "set_3d m i k v = Inr m1"
      using st unfolding store_def al sm by (cases "set_3d m i k v") simp_all
    obtain m2 where s2: "set_3d m1 k i v = Inr m2"
      using st unfolding store_def al sm by (cases "set_3d m1 k i v") (simp_all add: s1)
    have "st\<lparr>st_tpcf_matrix := Some (Mat3 m2), st_calls := st_calls st @ [(i, k)]\<rparr> = st'"
      using st unfolding store_def al sm by (simp add: s1 s2)
    then have st': "st' = st\<lparr>st_tpcf_matrix := Some (Mat3 m2), st_calls := st_calls st @ [(i, k)]\<rparr>"
      by (rule sym)
    have f1: "st_tpcf_matrix st = None \<longrightarrow> m = replicate (length v) (replicate n (replicate n 0))"
      by (simp add: sm)
    have f2: "\<forall>m'. st_tpcf_matrix st = Some (Mat3 m') \<longrightarrow> m = m'"
      by (simp add: sm)
    have f3: "st_tpcf_matrix st' = Some (Mat3 m2)" by (simp add: st')
    have f4: "st_tpcf_shape st' = (case st_tpcf_matrix st of None \<Rightarrow> Some shp | Some x \<Rightarrow> st_tpcf_shape st)"
      by (simp add: st' sm)
    have f5: "st_calls st' = st_calls st @ [(i, k)]" by (simp add: st')
    show ?thesis by (rule finish [OF f1 f2 dm s1 s2 f3 f4 f5])
  qed
qed

lemma auto_pair_state:
  assumes ok: "auto_pair tpcf args kwargs n pos i k st = Inr st'"
    and i: "i < n" and k: "k < n" and inv: "auto_state n st"
  shows "auto_state n st'"
proof (cases "pos ! i = [] \<or> pos ! k = []")
  case True
  then show ?thesis using ok inv auto_pair_skip [OF True, of tpcf args kwargs n st] by simp
next
  case False
  then have ne: "pos ! i \<noteq> []" "pos ! k \<noteq> []" by simp_all
  show ?thesis
  proof (rule auto_pair_call [OF ok ne i k inv])
    fix m0 m' :: "real list list list"
    assume "dims_3d (length m0) n m'" "st_tpcf_matrix st' = Some (Mat3 m')"
    then show ?thesis by (auto simp: auto_state_def dims_3d_def)
  qed
qed

lemma symmetric_3d_zeros: "symmetric_3d n (replicate K (replicate n (replicate n 0)))"
  by (simp add: symmetric_3d_def)

lemma auto_pair_sym:
  assumes ok: "auto_pair tpcf args kwargs n pos i k st = Inr st'"
    and i: "i < n" and k: "k < n" and inv: "sym_state n st"
  shows "sym_state n st'"
proof (cases "pos ! i = [] \<or> pos ! k = []")
  case True
  then show ?thesis using ok inv auto_pair_skip [OF True, of tpcf args kwargs n st] by simp
next
  case False
  then have ne: "pos ! i \<noteq> []" "pos ! k \<noteq> []" by simp_all
  have as: "auto_state n st" using inv by (simp add: sym_state_def)
  have as': "auto_state n st'" by (rule auto_pair_state [OF ok i k as])
  show ?thesis
  proof (rule auto_pair_call [OF ok ne i k as])
    fix v w :: "real list" and m0 m' :: "real list list list"
    assume z: "st_tpcf_matrix st = None \<longrightarrow> m0 = replicate (length v) (replicate n (replicate n 0))"
      and old: "\<forall>m. st_tpcf_matrix st = Some (Mat3 m) \<longrightarrow> m0 = m"
      and d0: "dims_3d (length m0) n m0" and d': "dims_3d (length m0) n m'"
      and m': "st_tpcf_matrix st' = Some (Mat3 m')"
      and cells: "\<forall>s < length m0. \<forall>a < n. \<forall>b < n.
         m' ! s ! a ! b = (if (a = i \<and> b = k) \<or> (a = k \<and> b = i) then w ! s else m0 ! s ! a ! b)"
    have s0: "symmetric_3d n m0"
    proof (cases "st_tpcf_matrix st")
      case None
      then show ?thesis using z symmetric_3d_zeros by simp
    next
      case (Some x)
      then obtain m where "x = Mat3 m" using as by (cases x) (auto simp: auto_state_def)
      then show ?thesis using Some old inv by (auto simp: sym_state_def)
    qed
    have lm: "length m' = length m0" using d' by (simp add: dims_3d_def)
    have "symmetric_3d n m'"
      unfolding symmetric_3d_def lm
    proof (intro allI impI)
      fix s a b assume h: "s < length m0" "a < n" "b < n"
      have e1: "m' ! s ! a ! b = (if (a = i \<and> b = k) \<or> (a = k \<and> b = i) then w ! s else m0 ! s ! a ! b)"
        using cells [rule_format, OF h] .
      have e2: "m' ! s ! b ! a = (if (b = i \<and> a = k) \<or> (b = k \<and> a = i) then w ! s else m0 ! s ! b ! a)"
        using cells [rule_format, OF h(1) h(3) h(2)] .
      have e3: "m0 ! s ! a ! b = m0 ! s ! b ! a"
        using s0 h by (simp add: symmetric_3d_def)
      show "m' ! s ! a ! b = m' ! s ! b ! a"
        unfolding e1 e2 e3 by argo
    qed
    then show ?thesis using as' m' by (simp add: sym_state_def)
  qed
qed

lemma auto_row_sym:
  assumes "for_loop [i..<n] (auto_pair tpcf args kwargs n pos i) st = Inr st'"
    and "i < n" and "sym_state n st"
  shows "sym_state n st'"
proof (rule for_loop_invariant [OF assms(1), of "sym_state n"])
  show "sym_state n st" by (rule assms(3))
next
  fix k a b assume "k \<in> set [i..<n]" "sym_state n a" "auto_pair tpcf args kwargs n pos i k a = Inr b"
  then show "sym_state n b" using auto_pair_sym [of tpcf args kwargs n pos i k a b] assms(2) by simp
qed

lemma tabulate_matrix_auto_sym:
  assumes "tabulate_matrix tpcf args kwargs ''auto'' n pos = Inr st"
  shows "sym_state n st"
proof (rule for_loop_invariant [OF assms [unfolded tabulate_matrix_def], of "sym_state n"])
  show "sym_state n \<lparr>st_tpcf_matrix = None, st_tpcf_shape = None, st_calls = []\<rparr>"
    by (simp add: sym_state_def auto_state_def)
next
  fix i a b
  assume "i \<in> set [0..<n]" "sym_state n a"
    and "(if ''auto'' = ''auto'' then for_loop [i..<n] (auto_pair tpcf args kwargs n pos i) a
          else if ''auto'' = ''cross'' then cross_bin tpcf args kwargs n pos i a else Inr a) = Inr b"
  then show "sym_state n b" using auto_row_sym [of i n tpcf args kwargs pos a b] by simp
qed

lemma tabulate_InrD:
  assumes "tabulate cat tpcf args p kwargs ext = Inr halotab"
  obtains halos percentile t gal_percentile pos st where
    "halos = filter (\<lambda>h. halo_prim h \<ge> Num_ptcl_requirement p * particle_mass cat)
               (filter (\<lambda>h. halo_pid h = - 1) (halo_table cat))"
    "compute_conditional_percentiles ext halos = Inr percentile"
    "length percentile = length halos"
    "tabulate_gal_type (map halo_prim halos) percentile (sec_haloprop p)
             (sec_haloprop_split p) (prim_haloprop_bins p) (prod_list (Lbox cat)) = Inr t"
    "tabulate_percentile (map gal_halo_id (mock_galaxy_table ext)) (map halo_id halos) percentile
       = Inr gal_percentile"
    "tabulate_pos t (zip (mock_galaxy_table ext) gal_percentile)
       (return_xyz_formatted_array ext (mock_galaxy_table ext))
       (sec_haloprop p) (sec_haloprop_split p) = Inr pos"
    "tabulate_matrix tpcf args kwargs (mode p) (table_len t) pos = Inr st"
    "st_tpcf_matrix st = Some (tpcf_matrix halotab)"
    "st_tpcf_shape st = Some (tpcf_shape halotab)"
    "gal_type halotab = t" "tpcf_args halotab = args" "tpcf_kwargs halotab = kwargs"
proof -
  note result = that
  define halos where "halos = filter (\<lambda>h. halo_prim h \<ge> Num_ptcl_requirement p * particle_mass cat)
               (filter (\<lambda>h. halo_pid h = - 1) (halo_table cat))"
  define gals where "gals = mock_galaxy_table ext"
  note ok = assms [unfolded tabulate_def Let_def, folded halos_def, folded gals_def]
  obtain percentile where a: "compute_conditional_percentiles ext halos = Inr percentile"
    using ok by (cases "compute_conditional_percentiles ext halos") simp_all
  have b: "length percentile = length halos"
    using ok by (simp add: a split: if_splits)
  obtain t where c: "tabulate_gal_type (map halo_prim halos) percentile (sec_haloprop p)
             (sec_haloprop_split p) (prim_haloprop_bins p) (prod_list (Lbox cat)) = Inr t"
    using ok b
    by (cases "tabulate_gal_type (map halo_prim halos) percentile (sec_haloprop p)
             (sec_haloprop_split p) (prim_haloprop_bins p) (prod_list (Lbox cat))") (simp_all add: a)
  obtain gal_percentile where d: "tabulate_percentile (map gal_halo_id gals) (map halo_id halos) percentile
       = Inr gal_percentile"
    using ok b
    by (cases "tabulate_percentile (map gal_halo_id gals) (map halo_id halos) percentile")
       (simp_all add: a c)
  obtain pos where e: "tabulate_pos t (zip gals gal_percentile) (return_xyz_formatted_array ext gals)
       (sec_haloprop p) (sec_haloprop_split p) = Inr pos"
    using ok b
    by (cases "tabulate_pos t (zip gals gal_percentile) (return_xyz_formatted_array ext gals)
       (sec_haloprop p) (sec_haloprop_split p)") (simp_all add: a c d)
  obtain st where f: "tabulate_matrix tpcf args kwargs (mode p) (table_len t) pos = Inr st"
    using ok b
    by (cases "tabulate_matrix tpcf args kwargs (mode p) (table_len t) pos") (simp_all add: a c d e)
  have g: "(case (st_tpcf_shape st, st_tpcf_matrix st) of
        (Some shp, Some m) \<Rightarrow>
          Inr \<lparr>init = True,
               attrs = [(''tpcf'', AStr (tpcf_name tpcf)), (''mode'', AStr (mode p)),
                        (''simname'', AStr (simname cat)), (''redshift'', ANum (redshift cat)),
                        (''Num_ptcl_requirement'', ANum (Num_ptcl_requirement p)),
                        (''prim_haloprop_key'', AStr (prim_haloprop_key p)),
                        (''sec_haloprop'', ABool (sec_haloprop p)),
                        (''sec_haloprop_key'', AStr (sec_haloprop_key p)),
                        (''sec_haloprop_split'', ANum (sec_haloprop_split p))],
               gal_type = t, tpcf_args = args, tpcf_kwargs = kwargs,
               tpcf_shape = shp, tpcf_matrix = m\<rparr>
      | _ \<Rightarrow> Inl UnboundLocalError) = Inr halotab"
    using ok b by (simp add: a c d e f)
  obtain shp m where h: "st_tpcf_shape st = Some shp" "st_tpcf_matrix st = Some m"
    using g by (cases "st_tpcf_shape st"; cases "st_tpcf_matrix st") simp_all
  have ht: "\<lparr>init = True,
               attrs = [(''tpcf'', AStr (tpcf_name tpcf)), (''mode'', AStr (mode p)),
                        (''simname'', AStr (simname cat)), (''redshift'', ANum (redshift cat)),
                        (''Num_ptcl_requirement'', ANum (Num_ptcl_requirement p)),
                        (''prim_haloprop_key'', AStr (prim_haloprop_key p)),
                        (''sec_haloprop'', ABool (sec_haloprop p)),
                        (''sec_haloprop_key'', AStr (sec_haloprop_key p)),
                        (''sec_haloprop_split'', ANum (sec_haloprop_split p))],
               gal_type = t, tpcf_args = args, tpcf_kwargs = kwargs,
               tpcf_shape = shp, tpcf_matrix = m\<rparr> = halotab"
    using g unfolding h by simp
  have h1: "st_tpcf_matrix st = Some (tpcf_matrix halotab)" unfolding h ht [symmetric] by simp
  have h2: "st_tpcf_shape st = Some (tpcf_shape halotab)" unfolding h ht [symmetric] by simp
  have h3: "gal_type halotab = t" unfolding ht [symmetric] by simp
  have h4: "tpcf_args halotab = args" unfolding ht [symmetric] by simp
  have h5: "tpcf_kwargs halotab = kwargs" unfolding ht [symmetric] by simp
  show thesis
    by (rule result [OF halos_def a b c d [unfolded gals_def] e [unfolded gals_def] f h1 h2 h3 h4 h5])
qed

text \<open>
  Claim C2. When \<^verbatim>\<open>tabulate\<close> completes in auto mode, the matrix it returns has
  three axes of lengths \<open>(K, n, n)\<close>, \<open>n\<close> being the number of bins, and it is
  exactly symmetric in the two bin indices: \<open>matrix[s, i, j] = matrix[s, j, i]\<close> for
  every element \<open>s\<close> of the statistic and all bins \<open>i\<close> and \<open>j\<close>.
\<close>

theorem tabulate_auto_matrix_symmetric:
  assumes "tabulate cat tpcf args p kwargs ext = Inr halotab" and "mode p = ''auto''"
  shows "\<exists>m. tpcf_matrix halotab = Mat3 m
           \<and> dims_3d (length m) (table_len (gal_type halotab)) m
           \<and> (\<forall>s < length m. \<forall>i < table_len (gal_type halotab). \<forall>j < table_len (gal_type halotab).
                  m ! s ! i ! j = m ! s ! j ! i)"
proof (rule tabulate_InrD [OF assms(1)])
  fix t pos st
  assume m: "tabulate_matrix tpcf args kwargs (mode p) (table_len t) pos = Inr st"
    and sm: "st_tpcf_matrix st = Some (tpcf_matrix halotab)"
    and t: "gal_type halotab = t"
  have "sym_state (table_len t) st"
    using tabulate_matrix_auto_sym m assms(2) by simp
  then show ?thesis
    using sm t by (cases "tpcf_matrix halotab") (auto simp: sym_state_def auto_state_def symmetric_3d_def)
qed

theorem tabulate_auto_matrix_symmetric_witness:
  "tabulate example_halocat (example_tpcf ''wp'') [7] (example_params ''auto'') [(''pi_max'', 40)]
     (example_collaborators example_gals) = Inr example_result
   \<and> mode (example_params ''auto'') = ''auto''
   \<and> tpcf_matrix example_result = Mat3 [[[4, 2], [2, 1]]]
   \<and> [[[4, 2], [2, 1 :: real]]] ! 0 ! 0 ! 1 = [[[4, 2], [2, 1]]] ! 0 ! 1 ! 0"
proof -
  have md: "mode (example_params ''auto'') = ''auto''" by (simp add: example_params_def)
  have mx: "tpcf_matrix example_result = Mat3 [[[4, 2], [2, 1]]]" by (simp add: example_result_def)
  have tl: "table_len (gal_type example_result) = 2" by (simp add: example_result_def table_len_def)
  from tabulate_auto_matrix_symmetric [OF example_run md]
  have "\<forall>s < 1. \<forall>i < 2. \<forall>j < 2. [[[4, 2], [2, 1 :: real]]] ! s ! i ! j = [[[4, 2], [2, 1]]] ! s ! j ! i"
    unfolding mx tl by simp
  then have "[[[4, 2], [2, 1 :: real]]] ! 0 ! 0 ! 1 = [[[4, 2], [2, 1]]] ! 0 ! 1 ! 0"
    by simp
  with example_run md mx show ?thesis by blast
qed




lemma tabulate_matrix_auto_unfold:
  "tabulate_matrix tpcf args kwargs ''auto'' n pos =
     for_loop [0..<n] (\<lambda>i st. for_loop [i..<n] (auto_pair tpcf args kwargs n pos i) st)
       \<lparr>st_tpcf_matrix = None, st_tpcf_shape = None, st_calls = []\<rparr>"
  by (simp add: tabulate_matrix_def)










subsection \<open>The matrix in cross mode\<close>

lemma dims_2d_nth: "dims_2d K n m \<Longrightarrow> s < K \<Longrightarrow> length (m ! s) = n"
  by (simp add: dims_2d_def)

lemma dims_2d_zeros: "dims_2d K n (replicate K (replicate n 0))"
  by (auto simp: dims_2d_def)

lemma set_2d_Inr:
  assumes "set_2d m i v = Inr m'" and d: "dims_2d K n m" and "i < n"
  obtains w where "np_broadcast_to v K = Inr w" "dims_2d K n m'"
    "\<forall>s < K. \<forall>b < n. m' ! s ! b = (if b = i then w ! s else m ! s ! b)"
proof -
  have lm: "length m = K" using d by (simp add: dims_2d_def)
  from assms(1) obtain w where w: "np_broadcast_to v K = Inr w"
    and m': "m' = map2 (\<lambda>row x. row[i := x]) m w"
    by (auto simp: set_2d_def lm split: if_splits sum.splits)
  have lw: "length w = K" using np_broadcast_to_Inr(1) [OF w] .
  have d': "dims_2d K n m'"
    unfolding dims_2d_def
  proof (intro conjI ballI)
    show "length m' = K" by (simp add: m' lm lw)
  next
    fix row assume "row \<in> set m'"
    then obtain s where s: "s < K" and p: "row = (m ! s)[i := w ! s]"
      by (auto simp: m' in_set_conv_nth lm lw)
    show "length row = n" using dims_2d_nth [OF d s] by (simp add: p)
  qed
  have cells: "\<forall>s < K. \<forall>b < n. m' ! s ! b = (if b = i then w ! s else m ! s ! b)"
  proof (intro allI impI)
    fix s b assume s: "s < K" and b: "b < n"
    have "m' ! s = (m ! s)[i := w ! s]"
      using s by (simp add: m' lm lw)
    then show "m' ! s ! b = (if b = i then w ! s else m ! s ! b)"
      using dims_2d_nth [OF d s] b assms(3) by (simp add: nth_list_update)
  qed
  from w d' cells show ?thesis by (rule that)
qed

lemma cross_bin_skip:
  "pos ! i = [] \<Longrightarrow> cross_bin tpcf args kwargs n pos i st = Inr st"
  by (simp add: cross_bin_def)

lemma ravel_shape_Arr:
  assumes "ravel xi = Inr v" "shape_of xi = Inr shp"
  obtains a where "xi = Arr a" "nd_data a = v" "nd_shape a = shp"
  using assms by (cases xi) (auto simp: ravel_def shape_of_def)

lemma cross_bin_call:
  assumes ok: "cross_bin tpcf args kwargs n pos i st = Inr st'"
    and ne: "pos ! i \<noteq> []" and i: "i < n" and inv: "cross_state n st"
  obtains a m0 m' w where
    "cross_value tpcf args kwargs (pos ! i) = Inr (Arr a)"
    "st_tpcf_matrix st = None \<longrightarrow> m0 = replicate (length (nd_data a)) (replicate n 0)"
    "\<forall>m. st_tpcf_matrix st = Some (Mat2 m) \<longrightarrow> m0 = m"
    "dims_2d (length m0) n m0" "dims_2d (length m0) n m'"
    "np_broadcast_to (nd_data a) (length m0) = Inr w"
    "st_tpcf_matrix st' = Some (Mat2 m')"
    "st_tpcf_shape st' = (case st_tpcf_matrix st of None \<Rightarrow> Some (nd_shape a) | Some x \<Rightarrow> st_tpcf_shape st)"
    "st_calls st' = st_calls st @ [(i, i)]"
    "\<forall>s < length m0. \<forall>b < n. m' ! s ! b = (if b = i then w ! s else m0 ! s ! b)"
proof -
  note result = that
  define alloc where "alloc (v::real list) shp = (case st_tpcf_matrix st of
                     None \<Rightarrow> st\<lparr>st_tpcf_matrix := Some (Mat2 (replicate (length v) (replicate n 0))),
                                  st_tpcf_shape := Some shp\<rparr>
                   | Some m \<Rightarrow> st)" for v shp
  define store where "store (v::real list) (st1::tab_state) = (case st_tpcf_matrix st1 of
          Some (Mat2 m) \<Rightarrow>
            (case set_2d m i v of Inl e \<Rightarrow> Inl e | Inr m1 \<Rightarrow>
               Inr (st1\<lparr>st_tpcf_matrix := Some (Mat2 m1), st_calls := st_calls st @ [(i, i)]\<rparr>))
        | _ \<Rightarrow> Inl IndexError)" for v st1
  have unfold: "cross_bin tpcf args kwargs n pos i st =
      (case cross_value tpcf args kwargs (pos ! i) of
          Inl e \<Rightarrow> Inl e
        | Inr xi \<Rightarrow>
       (case ravel xi of Inl e \<Rightarrow> Inl e | Inr v \<Rightarrow>
       (case shape_of xi of Inl e \<Rightarrow> Inl e | Inr shp \<Rightarrow> store v (alloc v shp))))"
    using ne unfolding cross_bin_def cross_value_def alloc_def store_def Let_def
    by (simp split: sum.splits)
  obtain xi where call: "cross_value tpcf args kwargs (pos ! i) = Inr xi"
    using ok unfolding unfold by (cases "cross_value tpcf args kwargs (pos ! i)") simp_all
  obtain v where v: "ravel xi = Inr v"
    using ok unfolding unfold call by (cases "ravel xi") simp_all
  obtain shp where shp: "shape_of xi = Inr shp"
    using ok unfolding unfold call by (cases "shape_of xi") (simp_all add: v)
  obtain a where a: "xi = Arr a" "nd_data a = v" "nd_shape a = shp"
    by (rule ravel_shape_Arr [OF v shp])
  have st: "store v (alloc v shp) = Inr st'"
    using ok unfolding unfold by (simp add: call v shp)
  have finish: thesis
    if f1: "st_tpcf_matrix st = None \<longrightarrow> m0 = replicate (length (nd_data a)) (replicate n 0)"
    and f2: "\<forall>m. st_tpcf_matrix st = Some (Mat2 m) \<longrightarrow> m0 = m"
    and d0: "dims_2d (length m0) n m0"
    and s1: "set_2d m0 i v = Inr m1"
    and m': "st_tpcf_matrix st' = Some (Mat2 m1)"
    and sh: "st_tpcf_shape st' = (case st_tpcf_matrix st of None \<Rightarrow> Some (nd_shape a) | Some x \<Rightarrow> st_tpcf_shape st)"
    and cl: "st_calls st' = st_calls st @ [(i, i)]"
    for m0 m1
  proof -
    obtain w where w: "np_broadcast_to v (length m0) = Inr w"
      and d1: "dims_2d (length m0) n m1"
      and cells: "\<forall>s < length m0. \<forall>b < n. m1 ! s ! b = (if b = i then w ! s else m0 ! s ! b)"
      by (rule set_2d_Inr [OF s1 d0 i])
    show thesis
      by (rule result [OF call [unfolded a(1)] f1 f2 d0 d1 w [folded a(2)] m' sh cl cells])
  qed
  show thesis
  proof (cases "st_tpcf_matrix st")
    case None
    define z where "z = replicate (length v) (replicate n (0::real))"
    have al: "alloc v shp = st\<lparr>st_tpcf_matrix := Some (Mat2 z), st_tpcf_shape := Some shp\<rparr>"
      by (simp add: alloc_def None z_def)
    obtain m1 where s1: "set_2d z i v = Inr m1"
      using st unfolding store_def al by (cases "set_2d z i v") simp_all
    have "st\<lparr>st_tpcf_shape := Some shp, st_tpcf_matrix := Some (Mat2 m1),
                 st_calls := st_calls st @ [(i, i)]\<rparr> = st'"
      using st unfolding store_def al by (simp add: s1)
    then have st': "st' = st\<lparr>st_tpcf_shape := Some shp, st_tpcf_matrix := Some (Mat2 m1),
                 st_calls := st_calls st @ [(i, i)]\<rparr>"
      by (rule sym)
    have dz: "dims_2d (length z) n z"
      unfolding z_def length_replicate by (rule dims_2d_zeros)
    have f1: "st_tpcf_matrix st = None \<longrightarrow> z = replicate (length (nd_data a)) (replicate n 0)"
      by (simp add: z_def a)
    have f2: "\<forall>m. st_tpcf_matrix st = Some (Mat2 m) \<longrightarrow> z = m"
      by (simp add: None)
    have f3: "st_tpcf_matrix st' = Some (Mat2 m1)" by (simp add: st')
    have f4: "st_tpcf_shape st' = (case st_tpcf_matrix st of None \<Rightarrow> Some (nd_shape a) | Some x \<Rightarrow> st_tpcf_shape st)"
      by (simp add: st' None a)
    have f5: "st_calls st' = st_calls st @ [(i, i)]" by (simp add: st')
    show ?thesis by (rule finish [OF f1 f2 dz s1 f3 f4 f5])
  next
    case (Some x)
    then obtain m where x: "x = Mat2 m" and dm: "dims_2d (length m) n m"
      using inv by (cases x) (auto simp: cross_state_def)
    have al: "alloc v shp = st"
      by (simp add: alloc_def Some)
    have sm: "st_tpcf_matrix st = Some (Mat2 m)" using Some x by simp
    obtain m1 where s1: "set_2d m i v = Inr m1"
      using st unfolding store_def al sm by (cases "set_2d m i v") simp_all
    have "st\<lparr>st_tpcf_matrix := Some (Mat2 m1), st_calls := st_calls st @ [(i, i)]\<rparr> = st'"
      using st unfolding store_def al sm by (simp add: s1)
    then have st': "st' = st\<lparr>st_tpcf_matrix := Some (Mat2 m1), st_calls := st_calls st @ [(i, i)]\<rparr>"
      by (rule sym)
    have f1: "st_tpcf_matrix st = None \<longrightarrow> m = replicate (length (nd_data a)) (replicate n 0)"
      by (simp add: sm)
    have f2: "\<forall>m'. st_tpcf_matrix st = Some (Mat2 m') \<longrightarrow> m = m'"
      by (simp add: sm)
    have f3: "st_tpcf_matrix st' = Some (Mat2 m1)" by (simp add: st')
    have f4: "st_tpcf_shape st' = (case st_tpcf_matrix st of None \<Rightarrow> Some (nd_shape a) | Some x \<Rightarrow> st_tpcf_shape st)"
      by (simp add: st' sm)
    have f5: "st_calls st' = st_calls st @ [(i, i)]" by (simp add: st')
    show ?thesis by (rule finish [OF f1 f2 dm s1 f3 f4 f5])
  qed
qed

lemma cross_bin_state:
  assumes ok: "cross_bin tpcf args kwargs n pos i st = Inr st'"
    and i: "i < n" and inv: "cross_state n st"
  shows "cross_state n st'"
proof (cases "pos ! i = []")
  case True
  then show ?thesis using ok inv cross_bin_skip [OF True, of tpcf args kwargs n st] by simp
next
  case False
  show ?thesis
  proof (rule cross_bin_call [OF ok False i inv])
    fix m0 m' :: "real list list"
    assume "dims_2d (length m0) n m'" "st_tpcf_matrix st' = Some (Mat2 m')"
    then show ?thesis by (auto simp: cross_state_def dims_2d_def)
  qed
qed

lemma column_updated:
  assumes d: "dims_2d K n m'" and lw: "length w = K"
    and cells: "\<forall>s < K. \<forall>b < n. m' ! s ! b = (if b = i then w ! s else m0 ! s ! b)"
    and i: "i < n"
  shows "column m' i = w"
proof (rule nth_equalityI)
  show "length (column m' i) = length w" using d lw by (simp add: column_def dims_2d_def)
next
  fix s assume "s < length (column m' i)"
  then have s: "s < K" using d by (simp add: column_def dims_2d_def)
  have "m' ! s ! i = w ! s" using cells [rule_format, OF s i] by simp
  then show "column m' i ! s = w ! s" using s d by (simp add: column_def dims_2d_def)
qed

lemma column_kept:
  assumes d: "dims_2d K n m'" and d0: "dims_2d K n m0"
    and cells: "\<forall>s < K. \<forall>b < n. m' ! s ! b = (if b = i then w ! s else m0 ! s ! b)"
    and j: "j < n" "j \<noteq> i"
  shows "column m' j = column m0 j"
proof (rule nth_equalityI)
  show "length (column m' j) = length (column m0 j)" using d d0 by (simp add: column_def dims_2d_def)
next
  fix s assume "s < length (column m' j)"
  then have s: "s < K" using d by (simp add: column_def dims_2d_def)
  have "m' ! s ! j = m0 ! s ! j" using cells [rule_format, OF s j(1)] j(2) by simp
  then show "column m' j ! s = column m0 j ! s" using s d d0 by (simp add: column_def dims_2d_def)
qed

lemma cross_bin_inv:
  assumes ok: "cross_bin tpcf args kwargs n pos i st = Inr st'"
    and i: "i < n" and inv: "cross_inv tpcf args kwargs n pos st"
    and fixed: "fixed_layout tpcf args kwargs n pos"
  shows "cross_inv tpcf args kwargs n pos st'"
proof (cases "pos ! i = []")
  case True
  then show ?thesis using ok inv cross_bin_skip [OF True, of tpcf args kwargs n st] by simp
next
  case False
  have cs: "cross_state n st" using inv by (simp add: cross_inv_def)
  have cs': "cross_state n st'" by (rule cross_bin_state [OF ok i cs])
  have calls_ok: "\<forall>j. (j, j) \<in> set (st_calls st) \<longrightarrow> j < n \<and> pos ! j \<noteq> []"
    using inv by (simp add: cross_inv_def)
  show ?thesis
  proof (rule cross_bin_call [OF ok False i cs])
    fix a :: "real ndarray" and w :: "real list" and m0 m' :: "real list list"
    assume val: "cross_value tpcf args kwargs (pos ! i) = Inr (Arr a)"
      and z: "st_tpcf_matrix st = None \<longrightarrow> m0 = replicate (length (nd_data a)) (replicate n 0)"
      and old: "\<forall>m. st_tpcf_matrix st = Some (Mat2 m) \<longrightarrow> m0 = m"
      and d0: "dims_2d (length m0) n m0" and d': "dims_2d (length m0) n m'"
      and w: "np_broadcast_to (nd_data a) (length m0) = Inr w"
      and m': "st_tpcf_matrix st' = Some (Mat2 m')"
      and sh: "st_tpcf_shape st' = (case st_tpcf_matrix st of None \<Rightarrow> Some (nd_shape a) | Some x \<Rightarrow> st_tpcf_shape st)"
      and cl: "st_calls st' = st_calls st @ [(i, i)]"
      and cells: "\<forall>s < length m0. \<forall>b < n. m' ! s ! b = (if b = i then w ! s else m0 ! s ! b)"
    have first: "\<exists>f a0. f < n \<and> pos ! f \<noteq> [] \<and> cross_value tpcf args kwargs (pos ! f) = Inr (Arr a0) \<and>
                  length m0 = length (nd_data a0) \<and> st_tpcf_shape st' = Some (nd_shape a0)"
    proof (cases "st_tpcf_matrix st")
      case None
      then have "length m0 = length (nd_data a)" using z by simp
      moreover have "st_tpcf_shape st' = Some (nd_shape a)" using sh None by simp
      ultimately show ?thesis using i False val by blast
    next
      case (Some x)
      then obtain m where x: "x = Mat2 m" using cs by (cases x) (auto simp: cross_state_def)
      then have mm: "m0 = m" using Some old by simp
      have "\<exists>f a0. f < n \<and> pos ! f \<noteq> [] \<and> cross_value tpcf args kwargs (pos ! f) = Inr (Arr a0) \<and>
                  length m = length (nd_data a0) \<and> st_tpcf_shape st = Some (nd_shape a0)"
        using inv Some x by (simp add: cross_inv_def)
      moreover have "st_tpcf_shape st' = st_tpcf_shape st" using sh Some by simp
      ultimately show ?thesis by (simp add: mm)
    qed
    then obtain f a0 where f: "f < n" "pos ! f \<noteq> []"
      "cross_value tpcf args kwargs (pos ! f) = Inr (Arr a0)"
      "length m0 = length (nd_data a0)" "st_tpcf_shape st' = Some (nd_shape a0)"
      by blast
    have same: "length (nd_data a) = length (nd_data a0)"
      using fixed [unfolded fixed_layout_def, rule_format, OF i f(1) False f(2) val f(3)] by simp
    have wv: "w = nd_data a"
      using np_broadcast_to_Inr(2) [OF w] same f(4) by simp
    have lw: "length w = length m0" using np_broadcast_to_Inr(1) [OF w] .
    have lm: "length m' = length m0" using d' by (simp add: dims_2d_def)
    have ci: "column m' i = nd_data a"
      using column_updated [OF d' lw cells i] wv by simp
    have cols: "\<exists>b. cross_value tpcf args kwargs (pos ! j) = Inr (Arr b) \<and> column m' j = nd_data b"
      if j: "(j, j) \<in> set (st_calls st')" for j
    proof (cases "j = i")
      case True
      then show ?thesis using val ci by blast
    next
      case ji: False
      then have jc: "(j, j) \<in> set (st_calls st)" using j cl by simp
      then have jn: "j < n" using calls_ok by simp
      have "st_tpcf_matrix st \<noteq> None"
      proof
        assume "st_tpcf_matrix st = None"
        then have "st_calls st = []" using inv jc cs
          by (auto simp: cross_inv_def cross_state_def)
        then show False using jc by simp
      qed
      then obtain x where sx: "st_tpcf_matrix st = Some x" by (cases "st_tpcf_matrix st") simp_all
      then obtain m where x: "x = Mat2 m" using cs by (cases x) (auto simp: cross_state_def)
      have mm: "m0 = m" using sx x old by simp
      have "\<exists>b. cross_value tpcf args kwargs (pos ! j) = Inr (Arr b) \<and> column m j = nd_data b"
        using inv sx x jc by (simp add: cross_inv_def)
      moreover have "column m' j = column m0 j"
        by (rule column_kept [OF d' d0 cells jn ji])
      ultimately show ?thesis by (simp add: mm)
    qed
    have calls': "\<forall>j. (j, j) \<in> set (st_calls st') \<longrightarrow> j < n \<and> pos ! j \<noteq> []"
      using calls_ok i False by (auto simp: cl)
    show ?thesis
      unfolding cross_inv_def
      using cs' calls' m' f lm cols by auto
  qed
qed

lemma tabulate_matrix_cross_unfold:
  "tabulate_matrix tpcf args kwargs ''cross'' n pos =
     for_loop [0..<n] (cross_bin tpcf args kwargs n pos)
       \<lparr>st_tpcf_matrix = None, st_tpcf_shape = None, st_calls = []\<rparr>"
  by (simp add: tabulate_matrix_def)

lemma cross_bin_calls:
  assumes ok: "cross_bin tpcf args kwargs n pos i st = Inr st'"
    and i: "i < n" and inv: "cross_state n st"
  shows "st_calls st' = st_calls st @ (if pos ! i \<noteq> [] then [(i, i)] else [])"
proof (cases "pos ! i = []")
  case True
  then show ?thesis using ok cross_bin_skip [OF True, of tpcf args kwargs n st] by auto
next
  case False
  show ?thesis
  proof (rule cross_bin_call [OF ok False i inv])
    assume "st_calls st' = st_calls st @ [(i, i)]"
    then show ?thesis using False by simp
  qed
qed

lemma cross_rows_calls:
  assumes "for_loop rows (cross_bin tpcf args kwargs n pos) st = Inr st'"
    and "\<forall>i \<in> set rows. i < n" and "cross_state n st"
  shows "st_calls st' = st_calls st @ map (\<lambda>i. (i, i)) (filter (\<lambda>i. pos ! i \<noteq> []) rows)
       \<and> cross_state n st'"
  using assms
proof (induction rows arbitrary: st)
  case Nil
  then show ?case by simp
next
  case (Cons i rows)
  from Cons.prems(1) obtain s1 where s1: "cross_bin tpcf args kwargs n pos i st = Inr s1"
    and rest: "for_loop rows (cross_bin tpcf args kwargs n pos) s1 = Inr st'"
    by (auto split: sum.splits)
  have i: "i < n" and rows: "\<forall>i \<in> set rows. i < n" using Cons.prems(2) by simp_all
  have a1: "cross_state n s1" by (rule cross_bin_state [OF s1 i Cons.prems(3)])
  have c1: "st_calls s1 = st_calls st @ (if pos ! i \<noteq> [] then [(i, i)] else [])"
    by (rule cross_bin_calls [OF s1 i Cons.prems(3)])
  from Cons.IH [OF rest rows a1] show ?case
    by (simp add: c1)
qed

lemma tabulate_matrix_cross_inv:
  assumes run: "tabulate_matrix tpcf args kwargs ''cross'' n pos = Inr st"
    and fixed: "fixed_layout tpcf args kwargs n pos"
  shows "cross_inv tpcf args kwargs n pos st"
proof (rule for_loop_invariant [OF run [unfolded tabulate_matrix_cross_unfold],
        of "cross_inv tpcf args kwargs n pos"])
  show "cross_inv tpcf args kwargs n pos \<lparr>st_tpcf_matrix = None, st_tpcf_shape = None, st_calls = []\<rparr>"
    by (simp add: cross_inv_def cross_state_def)
next
  fix i a b
  assume "i \<in> set [0..<n]" "cross_inv tpcf args kwargs n pos a"
    "cross_bin tpcf args kwargs n pos i a = Inr b"
  then show "cross_inv tpcf args kwargs n pos b"
    using cross_bin_inv [of tpcf args kwargs n pos i a b] fixed by simp
qed

lemma auto_pair_name:
  "auto_pair (tpcf\<lparr>tpcf_name := nm\<rparr>) args kwargs n pos i = auto_pair tpcf args kwargs n pos i"
  by (intro ext) (simp add: auto_pair_def)

lemma cross_value_cases:
  assumes "cross_value tpcf args kwargs sample = Inr (Arr a)"
  obtains xi0 where "tpcf_call tpcf sample args None kwargs = Inr xi0"
    "if tpcf_name tpcf = ''delta_sigma'' then index_1 xi0 = Inr (Arr a) else xi0 = Arr a"
  using assms unfolding cross_value_def
  by (cases "tpcf_call tpcf sample args None kwargs") (simp_all split: if_splits)

text \<open>
  Claim C9. In cross mode, for a correlation function that keeps one shape over
  the calls of a run, and for every bin \<open>i\<close> with a non-empty subset: when the
  function's \<^verbatim>\<open>__name__\<close> is \<^verbatim>\<open>delta_sigma\<close>, item 1 of what the call returns is
  what is flattened into column \<open>i\<close> of the matrix, and the recorded shape is the
  shape of that item; for any other name the whole returned array is flattened
  into the column and gives the shape. Auto mode never looks at the name: with
  any other name it computes the same result.
\<close>

theorem cross_mode_delta_sigma:
  assumes run: "tabulate_matrix tpcf args kwargs ''cross'' n pos = Inr st"
    and fixed: "fixed_layout tpcf args kwargs n pos"
    and i: "i < n" and ne: "pos ! i \<noteq> []"
  shows "(\<exists>xi0 a m. tpcf_call tpcf (pos ! i) args None kwargs = Inr xi0
            \<and> (if tpcf_name tpcf = ''delta_sigma'' then index_1 xi0 = Inr (Arr a) else xi0 = Arr a)
            \<and> st_tpcf_matrix st = Some (Mat2 m)
            \<and> column m i = nd_data a
            \<and> st_tpcf_shape st = Some (nd_shape a))
       \<and> (\<forall>nm n' pos'. tabulate_matrix (tpcf\<lparr>tpcf_name := nm\<rparr>) args kwargs ''auto'' n' pos'
                          = tabulate_matrix tpcf args kwargs ''auto'' n' pos')"
proof -
  have inv: "cross_inv tpcf args kwargs n pos st"
    by (rule tabulate_matrix_cross_inv [OF run fixed])
  have rows: "\<forall>i \<in> set [0..<n]. i < n" by simp
  have c0: "cross_state n \<lparr>st_tpcf_matrix = None, st_tpcf_shape = None, st_calls = []\<rparr>"
    by (simp add: cross_state_def)
  from cross_rows_calls [OF run [unfolded tabulate_matrix_cross_unfold] rows c0]
  have calls: "st_calls st = map (\<lambda>i. (i, i)) (filter (\<lambda>i. pos ! i \<noteq> []) [0..<n])"
    and cs: "cross_state n st"
    by simp_all
  have ic: "(i, i) \<in> set (st_calls st)"
    unfolding calls using i ne by (simp add: image_iff)
  have "st_tpcf_matrix st \<noteq> None"
    using inv ic by (auto simp: cross_inv_def)
  then obtain x where sx: "st_tpcf_matrix st = Some x" by (cases "st_tpcf_matrix st") simp_all
  then obtain m where x: "x = Mat2 m" using cs by (cases x) (auto simp: cross_state_def)
  have sm: "st_tpcf_matrix st = Some (Mat2 m)" using sx x by simp
  from inv sm obtain f a0 where f: "f < n" "pos ! f \<noteq> []"
    "cross_value tpcf args kwargs (pos ! f) = Inr (Arr a0)"
    "st_tpcf_shape st = Some (nd_shape a0)"
    unfolding cross_inv_def by blast
  from inv sm ic obtain a where a: "cross_value tpcf args kwargs (pos ! i) = Inr (Arr a)"
    "column m i = nd_data a"
    unfolding cross_inv_def by blast
  have "nd_shape a = nd_shape a0"
    using fixed [unfolded fixed_layout_def, rule_format, OF i f(1) ne f(2) a(1) f(3)] by simp
  then have sh: "st_tpcf_shape st = Some (nd_shape a)" using f(4) by simp
  obtain xi0 where xi0: "tpcf_call tpcf (pos ! i) args None kwargs = Inr xi0"
    "if tpcf_name tpcf = ''delta_sigma'' then index_1 xi0 = Inr (Arr a) else xi0 = Arr a"
    by (rule cross_value_cases [OF a(1)])
  have part1: "\<exists>xi0 a m. tpcf_call tpcf (pos ! i) args None kwargs = Inr xi0
            \<and> (if tpcf_name tpcf = ''delta_sigma'' then index_1 xi0 = Inr (Arr a) else xi0 = Arr a)
            \<and> st_tpcf_matrix st = Some (Mat2 m)
            \<and> column m i = nd_data a
            \<and> st_tpcf_shape st = Some (nd_shape a)"
    using xi0 sm a(2) sh by blast
  have part2: "\<forall>nm n' pos'. tabulate_matrix (tpcf\<lparr>tpcf_name := nm\<rparr>) args kwargs ''auto'' n' pos'
                          = tabulate_matrix tpcf args kwargs ''auto'' n' pos'"
    by (simp add: tabulate_matrix_auto_unfold auto_pair_name)
  from part1 part2 show ?thesis by (rule conjI)
qed

lemma example_delta_sigma_value:
  "cross_value example_delta_sigma args kwargs sample =
     Inr (Arr \<lparr>nd_shape = [2], nd_data = [real (length sample), 2 * real (length sample)]\<rparr>)"
  by (simp add: cross_value_def example_delta_sigma_def index_1_def)

lemma example_delta_sigma_fixed: "fixed_layout example_delta_sigma args kwargs n pos"
  unfolding fixed_layout_def example_delta_sigma_value by auto

lemma example_cross_run:
  "tabulate_matrix example_delta_sigma [7] [(''pi_max'', 40)] ''cross'' 3
     [[(0, 0, 0)], [], [(1, 0, 0), (2, 0, 0)]] =
   Inr \<lparr>st_tpcf_matrix = Some (Mat2 [[1, 0, 2], [2, 0, 4]]),
        st_tpcf_shape = Some [2], st_calls = [(0, 0), (2, 2)]\<rparr>"
  by (simp add: tabulate_matrix_def cross_bin_def example_delta_sigma_def index_1_def ravel_def shape_of_def
        set_2d_def np_broadcast_to_def upt_rec [of _ "numeral _"] upt_rec [of _ "Suc _"] numeral_3_eq_3
        numeral_2_eq_2)

theorem cross_mode_delta_sigma_witness:
  "tabulate_matrix example_delta_sigma [7] [(''pi_max'', 40)] ''cross'' 3
     [[(0, 0, 0)], [], [(1, 0, 0), (2, 0, 0)]] =
   Inr \<lparr>st_tpcf_matrix = Some (Mat2 [[1, 0, 2], [2, 0, 4]]),
        st_tpcf_shape = Some [2], st_calls = [(0, 0), (2, 2)]\<rparr>
   \<and> fixed_layout example_delta_sigma [7] [(''pi_max'', 40)] 3 [[(0, 0, 0)], [], [(1, 0, 0), (2, 0, 0)]]
   \<and> tpcf_call example_delta_sigma [(1, 0, 0), (2, 0, 0)] [7] None [(''pi_max'', 40)] =
       Inr (Tup [\<lparr>nd_shape = [2], nd_data = [1, 2]\<rparr>, \<lparr>nd_shape = [2], nd_data = [2, 4]\<rparr>])
   \<and> column [[1, 0, 2], [2, 0, 4]] 2 = [2, 4]"
proof -
  define pos :: "position list list" where "pos = [[(0, 0, 0)], [], [(1, 0, 0), (2, 0, 0)]]"
  define st where "st = \<lparr>st_tpcf_matrix = Some (Mat2 [[1, 0, 2], [2, 0, 4]]),
        st_tpcf_shape = Some [2], st_calls = [(0, 0), (2, 2)]\<rparr>"
  have run: "tabulate_matrix example_delta_sigma [7] [(''pi_max'', 40)] ''cross'' 3 pos = Inr st"
    unfolding pos_def st_def by (rule example_cross_run)
  have fixed: "fixed_layout example_delta_sigma [7] [(''pi_max'', 40)] 3 pos"
    by (rule example_delta_sigma_fixed)
  have i: "(2::nat) < 3" by simp
  have ne: "pos ! 2 \<noteq> []" by (simp add: pos_def)
  have call: "tpcf_call example_delta_sigma [(1, 0, 0), (2, 0, 0)] [7] None [(''pi_max'', 40)] =
       Inr (Tup [\<lparr>nd_shape = [2], nd_data = [1, 2]\<rparr>, \<lparr>nd_shape = [2], nd_data = [2, 4]\<rparr>])"
    by (simp add: example_delta_sigma_def)
  from cross_mode_delta_sigma [OF run fixed i ne]
  obtain xi0 a m where r: "tpcf_call example_delta_sigma (pos ! 2) [7] None [(''pi_max'', 40)] = Inr xi0"
    "index_1 xi0 = Inr (Arr a)" "st_tpcf_matrix st = Some (Mat2 m)" "column m 2 = nd_data a"
    by (auto simp: example_delta_sigma_def)
  have "xi0 = Tup [\<lparr>nd_shape = [2], nd_data = [1, 2]\<rparr>, \<lparr>nd_shape = [2], nd_data = [2, 4]\<rparr>]"
    using r(1) call by (simp add: pos_def)
  then have "a = \<lparr>nd_shape = [2], nd_data = [2, 4]\<rparr>"
    using r(2) by (simp add: index_1_def)
  moreover have "m = [[1, 0, 2], [2, 0, 4]]" using r(3) by (simp add: st_def)
  ultimately have "column [[1, 0, 2], [2, 0, 4]] 2 = [2, 4]" using r(4) by simp
  with run fixed call show ?thesis unfolding pos_def st_def by blast
qed

subsection \<open>Galaxy assignment\<close>

lemma map2_map_left: "map2 h (map f xs) xs = map (\<lambda>x. h (f x) x) xs"
  by (induction xs) simp_all

lemma bin_mask_Inr:
  assumes "bin_mask t gals sec_hp sec_split i = Inr msk"
  shows "msk = map (assigned_to_bin t sec_hp sec_split i) gals"
proof (cases sec_hp)
  case False
  with assms show ?thesis
    by (auto simp: bin_mask_def assigned_to_bin_def Let_def)
next
  case True
  with assms obtain sec where s: "c_sec t = Some sec"
    by (cases "c_sec t") (auto simp: bin_mask_def Let_def)
  show ?thesis
  proof (cases "sec ! i = 0")
    case z: True
    with assms True s show ?thesis
      by (auto simp: bin_mask_def assigned_to_bin_def Let_def map2_map_left)
  next
    case z: False
    with assms True s show ?thesis
      by (auto simp: bin_mask_def assigned_to_bin_def Let_def map2_map_left)
  qed
qed

lemma select_by_map:
  "length a = length xs \<Longrightarrow>
     map fst (filter snd (zip a (map P xs))) = map fst (filter (\<lambda>(p, x). P x) (zip a xs))"
  by (induction a xs rule: list_induct2) simp_all

lemma np_select_Inr:
  assumes "np_select a (map P xs) = Inr sel"
  shows "length a = length xs" and "sel = map fst (filter (\<lambda>(p, x). P x) (zip a xs))"
proof -
  show l: "length a = length xs" using assms by (auto simp: np_select_def split: if_splits)
  show "sel = map fst (filter (\<lambda>(p, x). P x) (zip a xs))"
    using assms l by (auto simp: np_select_def select_by_map split: if_splits)
qed

lemma tabulate_pos_loop:
  assumes "for_loop rows
       (\<lambda>i pos. case bin_mask t gals sec_hp sec_split i of
                   Inl e \<Rightarrow> Inl e
                 | Inr msk \<Rightarrow>
                     (case np_select pos_all msk of
                        Inl e \<Rightarrow> Inl e
                      | Inr selected \<Rightarrow> Inr (pos @ [selected])))
       pos0 = Inr pos"
  shows "pos = pos0 @ map (\<lambda>i. map fst (filter (\<lambda>(p, g). assigned_to_bin t sec_hp sec_split i g)
                                   (zip pos_all gals))) rows
       \<and> (rows \<noteq> [] \<longrightarrow> length pos_all = length gals)"
  using assms
proof (induction rows arbitrary: pos0)
  case Nil
  then show ?case by simp
next
  case (Cons i rows)
  from Cons.prems obtain msk where m: "bin_mask t gals sec_hp sec_split i = Inr msk"
    by (cases "bin_mask t gals sec_hp sec_split i") simp_all
  from Cons.prems m obtain sel where s: "np_select pos_all msk = Inr sel"
    by (cases "np_select pos_all msk") simp_all
  from Cons.prems m s have rest: "for_loop rows
       (\<lambda>i pos. case bin_mask t gals sec_hp sec_split i of
                   Inl e \<Rightarrow> Inl e
                 | Inr msk \<Rightarrow>
                     (case np_select pos_all msk of
                        Inl e \<Rightarrow> Inl e
                      | Inr selected \<Rightarrow> Inr (pos @ [selected])))
       (pos0 @ [sel]) = Inr pos"
    by simp
  note mm = bin_mask_Inr [OF m]
  note sl = np_select_Inr [OF s [unfolded mm]]
  from Cons.IH [OF rest] show ?case
    using sl by simp
qed

lemma tabulate_pos_Inr:
  assumes "tabulate_pos t gals pos_all sec_hp sec_split = Inr pos"
  shows "length pos = table_len t"
    and "i < table_len t \<Longrightarrow>
           pos ! i = map fst (filter (\<lambda>(p, g). assigned_to_bin t sec_hp sec_split i g) (zip pos_all gals))"
    and "0 < table_len t \<Longrightarrow> length pos_all = length gals"
proof -
  note l = tabulate_pos_loop [OF assms [unfolded tabulate_pos_def]]
  show "length pos = table_len t" using l by simp
  show "pos ! i = map fst (filter (\<lambda>(p, g). assigned_to_bin t sec_hp sec_split i g) (zip pos_all gals))"
    if "i < table_len t"
    using l that by simp
  show "length pos_all = length gals" if "0 < table_len t"
    using l that by simp
qed

lemma np_histogram_form:
  assumes "np_histogram a bins = Inr (n_h, edges)"
  obtains lo hi where "lo < hi" "edges = np_linspace lo hi (nat bins + 1)"
    "n_h = histogram_counts a edges" "1 \<le> bins"
proof -
  have mm: "Min (set a) < Max (set a)" if "a \<noteq> []" "Min (set a) \<noteq> Max (set a)"
  proof -
    have "Min (set a) \<le> Max (set a)" using that(1) by (simp add: Min_le_iff)
    then show ?thesis using that(2) by simp
  qed
  define first_edge where "first_edge = (if a = [] then 0 else Min (set a))"
  define last_edge where "last_edge = (if a = [] then 1 else Max (set a))"
  define lo where "lo = (if first_edge = last_edge then first_edge - 1 / 2 else first_edge)"
  define hi where "hi = (if first_edge = last_edge then last_edge + 1 / 2 else last_edge)"
  have le: "first_edge \<le> last_edge"
    by (simp add: first_edge_def last_edge_def Min_le_iff)
  have lt: "lo < hi"
    using le by (simp add: lo_def hi_def)
  have b: "1 \<le> bins" using assms by (simp add: np_histogram_def split: if_splits)
  have "np_histogram a bins =
          Inr (histogram_counts a (np_linspace lo hi (nat bins + 1)), np_linspace lo hi (nat bins + 1))"
    using b unfolding np_histogram_def Let_def lo_def hi_def first_edge_def last_edge_def
    by simp
  then have e: "edges = np_linspace lo hi (nat bins + 1)"
    and n': "n_h = histogram_counts a (np_linspace lo hi (nat bins + 1))"
    using assms by simp_all
  have n: "n_h = histogram_counts a edges" unfolding e by (rule n')
  from lt e n b show ?thesis by (rule that)
qed

lemma np_histogram_first_bin:
  assumes "np_histogram a bins = Inr (n_h, edges)"
  shows "in_histogram_bin edges 0 (edges ! 0)"
    and "n_h ! 0 = length (filter (in_histogram_bin edges 0) a)"
    and "histogram_counts b edges ! 0 = length (filter (in_histogram_bin edges 0) b)"
proof -
  obtain lo hi where lt: "lo < hi" and e: "edges = np_linspace lo hi (nat bins + 1)"
    and n: "n_h = histogram_counts a edges" and b: "1 \<le> bins"
    by (rule np_histogram_form [OF assms])
  have l: "length edges = nat bins + 1" by (simp add: e length_np_linspace)
  have nb: "0 < nat bins" using b by simp
  have e0: "edges ! 0 = lo" using nb by (simp add: e nth_np_linspace)
  have e1: "edges ! Suc 0 = lo + (hi - lo) / real (nat bins)"
    using nb by (simp add: e nth_np_linspace)
  have "0 < (hi - lo) / real (nat bins)" using lt nb by simp
  then have "edges ! 0 < edges ! Suc 0" by (simp add: e0 e1)
  then show "in_histogram_bin edges 0 (edges ! 0)" by (simp add: in_histogram_bin_def)
  show c: "histogram_counts b edges ! 0 = length (filter (in_histogram_bin edges 0) b)" for b
    using nb by (simp add: histogram_counts_def l)
  show "n_h ! 0 = length (filter (in_histogram_bin edges 0) a)"
    unfolding n by (rule c)
qed

lemma nth_tile_butlast:
  assumes "sorted edges" and "length edges = B + 1" and "i < r * B"
  shows "edges ! 0 \<le> np_tile (butlast edges) r ! i"
    and "np_tile (butlast edges) r ! 0 = edges ! 0"
proof -
  have lb: "length (butlast edges) = B" using assms(2) by simp
  have B: "0 < B" using assms(3) by (cases B) simp_all
  have "i < r * length (butlast edges)" using assms(3) unfolding lb .
  then have "np_tile (butlast edges) r ! i = butlast edges ! (i mod length (butlast edges))"
    by (rule nth_np_tile)
  then have "np_tile (butlast edges) r ! i = butlast edges ! (i mod B)"
    unfolding lb .
  also have "\<dots> = edges ! (i mod B)"
    using B lb by (simp add: nth_butlast)
  finally have e: "np_tile (butlast edges) r ! i = edges ! (i mod B)" .
  have "i mod B < length edges" using B assms(2) by (simp add: less_Suc_eq mod_less_divisor)
  then have "edges ! 0 \<le> edges ! (i mod B)"
    using assms(1) by (simp add: sorted_iff_nth_mono)
  then show "edges ! 0 \<le> np_tile (butlast edges) r ! i" by (simp add: e)
  have z: "0 < r * B" using assms(3) by (cases "r * B") simp_all
  have "0 < r * length (butlast edges)" using z unfolding lb .
  then have "np_tile (butlast edges) r ! 0 = butlast edges ! (0 mod length (butlast edges))"
    by (rule nth_np_tile)
  also have "\<dots> = butlast edges ! 0" by simp
  also have "\<dots> = edges ! 0" using B lb by (simp add: nth_butlast)
  finally show "np_tile (butlast edges) r ! 0 = edges ! 0" .
qed

text \<open>
  Claim C10. Galaxy assignment uses intervals that are open at the lower edge and
  closed at the upper edge: the position subset of bin \<open>i\<close> holds, in their order,
  the positions of exactly the galaxies with
  \<open>10^log_prim_haloprop_min[i] < prim_haloprop \<le> 10^log_prim_haloprop_max[i]\<close>, the
  type of the bin and, with the split, the percentile on the bin's side. So a
  galaxy whose primary property is exactly the lower edge of the lowest bin is in
  the subset of no bin, although the histogram behind \<^verbatim>\<open>n_h\<close> counts a halo at
  that edge in its first bin. (Over the reals, where \<open>10 ** log10 x = x\<close>.)
\<close>

theorem galaxy_assignment_intervals:
  assumes gt: "tabulate_gal_type prim percentile sec_hp sec_split bins volume = Inr t"
    and pos: "tabulate_pos t gals pos_all sec_hp sec_split = Inr pos"
    and i: "i < table_len t"
  shows "pos ! i = map fst (filter (\<lambda>(p, g). assigned_to_bin t sec_hp sec_split i g) (zip pos_all gals))
       \<and> (\<forall>g. gal_prim (fst g) = 10 powr (c_log_prim_haloprop_min t ! 0) \<longrightarrow>
                \<not> assigned_to_bin t sec_hp sec_split i g)
       \<and> (\<exists>n_h edges. np_histogram (map (log 10) prim) bins = Inr (n_h, edges)
             \<and> c_log_prim_haloprop_min t ! 0 = edges ! 0
             \<and> in_histogram_bin edges 0 (edges ! 0)
             \<and> c_n_h t ! 0 =
                 real (length (filter (in_histogram_bin edges 0)
                   (if sec_hp
                    then map (\<lambda>(x, p). log 10 x) (filter (\<lambda>(x, p). p < sec_split) (zip prim percentile))
                    else map (log 10) prim))) / volume)"
proof -
  obtain n_h edges X where
    h: "np_histogram (map (log 10) prim) bins = Inr (n_h, edges)"
    and X: "X = (if sec_hp
          then histogram_counts (map (\<lambda>(x, p). log 10 x) (filter (\<lambda>(x, p). p < sec_split) (zip prim percentile))) edges @
               histogram_counts (map (\<lambda>(x, p). log 10 x) (filter (\<lambda>(x, p). p \<ge> sec_split) (zip prim percentile))) edges
          else n_h)"
    and lx: "length X = nat bins * (if sec_hp then 2 else 1)"
    and nh: "c_n_h t = map (\<lambda>c. real c / volume) (np_tile X 2)"
    and mn: "c_log_prim_haloprop_min t = np_tile (butlast edges) (2 * (if sec_hp then 2 else 1))"
    using tabulate_gal_type_InrD [OF gt] by metis
  note hl = np_histogram_Inr [OF h] and hs = np_histogram_sorted [OF h]
  note fb = np_histogram_first_bin [OF h]
  define r where "r = 2 * (if sec_hp then 2 else (1::nat))"
  have mn': "c_log_prim_haloprop_min t = np_tile (butlast edges) r" by (simp add: mn r_def)
  have le: "length edges = nat bins + 1" using hl by simp
  have tl: "table_len t = r * nat bins"
    by (simp add: table_len_def nh length_np_tile lx r_def)
  have ir: "i < r * nat bins" using i tl by simp
  have low: "edges ! 0 \<le> c_log_prim_haloprop_min t ! i"
    unfolding mn' by (rule nth_tile_butlast(1) [OF hs le ir])
  have first: "c_log_prim_haloprop_min t ! 0 = edges ! 0"
    unfolding mn' by (rule nth_tile_butlast(2) [OF hs le ir])
  have part1: "pos ! i = map fst (filter (\<lambda>(p, g). assigned_to_bin t sec_hp sec_split i g) (zip pos_all gals))"
    by (rule tabulate_pos_Inr(2) [OF pos i])
  have part2: "\<forall>g. gal_prim (fst g) = 10 powr (c_log_prim_haloprop_min t ! 0) \<longrightarrow>
                \<not> assigned_to_bin t sec_hp sec_split i g"
  proof (intro allI impI)
    fix g :: "galaxy \<times> real"
    assume e: "gal_prim (fst g) = 10 powr (c_log_prim_haloprop_min t ! 0)"
    have "(10::real) powr (edges ! 0) \<le> 10 powr (c_log_prim_haloprop_min t ! i)"
      using low by simp
    then have "\<not> 10 powr (c_log_prim_haloprop_min t ! i) < gal_prim (fst g)"
      by (simp add: e first)
    then show "\<not> assigned_to_bin t sec_hp sec_split i g"
      by (simp add: assigned_to_bin_def)
  qed
  have x0: "0 < length X" using lx hl(1) by simp
  have "c_n_h t ! 0 = real (X ! 0) / volume"
    using x0 nth_np_tile [of 0 2 X] by (simp add: nh length_np_tile)
  moreover have "X ! 0 = length (filter (in_histogram_bin edges 0)
                   (if sec_hp
                    then map (\<lambda>(x, p). log 10 x) (filter (\<lambda>(x, p). p < sec_split) (zip prim percentile))
                    else map (log 10) prim))"
  proof (cases sec_hp)
    case True
    have "0 < length (histogram_counts (map (\<lambda>(x, p). log 10 x) (filter (\<lambda>(x, p). p < sec_split) (zip prim percentile))) edges)"
      using hl(1) le by (simp add: length_histogram_counts)
    then show ?thesis using True fb(3) by (simp add: X nth_append)
  next
    case False
    then show ?thesis using fb(2) by (simp add: X)
  qed
  ultimately have cnt: "c_n_h t ! 0 =
                 real (length (filter (in_histogram_bin edges 0)
                   (if sec_hp
                    then map (\<lambda>(x, p). log 10 x) (filter (\<lambda>(x, p). p < sec_split) (zip prim percentile))
                    else map (log 10) prim))) / volume"
    by simp
  from part1 part2 h first fb(1) cnt show ?thesis by blast
qed

lemma example_percentile:
  "tabulate_percentile (map gal_halo_id example_gals) [1, 2] [1 / 2, 1 / 2] = Inr [1 / 2, 1 / 2, 0, 1 / 2]"
  by (simp add: example_gals_def tabulate_percentile_def crossmatch_def
        upt_rec [of _ "length _"] upt_rec [of _ "Suc _"])

lemma example_pos:
  "tabulate_pos (gal_type example_result) (zip example_gals [1 / 2, 1 / 2, 0, 1 / 2])
     [(100, 0, 0), (100, 0, 0), (10, 0, 0), (1, 0, 0)] False (1 / 2) =
   Inr [[(100, 0, 0), (10, 0, 0)], [(100, 0, 0)]]"
  by (simp add: example_result_def example_gals_def tabulate_pos_def table_len_def numeral_2_eq_2
        bin_mask_def np_select_def)

theorem galaxy_assignment_intervals_witness:
  "tabulate_gal_type [1, 100] [1 / 2, 1 / 2] False (1 / 2) 1 8 = Inr (gal_type example_result)
   \<and> tabulate_pos (gal_type example_result) (zip example_gals [1 / 2, 1 / 2, 0, 1 / 2])
        [(100, 0, 0), (100, 0, 0), (10, 0, 0), (1, 0, 0)] False (1 / 2) =
       Inr [[(100, 0, 0), (10, 0, 0)], [(100, 0, 0)]]
   \<and> gal_prim (example_gals ! 3) = 10 powr (c_log_prim_haloprop_min (gal_type example_result) ! 0)
   \<and> \<not> assigned_to_bin (gal_type example_result) False (1 / 2) 0 (example_gals ! 3, 1 / 2)
   \<and> (\<exists>n_h edges. np_histogram (map (log 10) [1, 100]) 1 = Inr (n_h, edges)
          \<and> edges ! 0 = 0 \<and> in_histogram_bin edges 0 0)"
proof -
  have gt: "tabulate_gal_type [1, 100] [1 / 2, 1 / 2] False (1 / 2) 1 8 = Inr (gal_type example_result)"
    using example_gal_type by (simp add: example_result_def)
  have i: "0 < table_len (gal_type example_result)"
    by (simp add: example_result_def table_len_def)
  note concl = galaxy_assignment_intervals [OF gt example_pos i]
  have e: "gal_prim (example_gals ! 3) = 10 powr (c_log_prim_haloprop_min (gal_type example_result) ! 0)"
    by (simp add: example_gals_def example_result_def)
  from concl have "\<forall>g. gal_prim (fst g) = 10 powr (c_log_prim_haloprop_min (gal_type example_result) ! 0) \<longrightarrow>
                \<not> assigned_to_bin (gal_type example_result) False (1 / 2) 0 g"
    by blast
  from this [rule_format, of "(example_gals ! 3, 1 / 2)"] e
  have na: "\<not> assigned_to_bin (gal_type example_result) False (1 / 2) 0 (example_gals ! 3, 1 / 2)"
    by simp
  from concl obtain n_h edges where h: "np_histogram (map (log 10) [1, 100]) 1 = Inr (n_h, edges)"
    "c_log_prim_haloprop_min (gal_type example_result) ! 0 = edges ! 0"
    "in_histogram_bin edges 0 (edges ! 0)"
    by blast
  have z: "edges ! 0 = 0" using h(2) by (simp add: example_result_def)
  have "\<exists>n_h edges. np_histogram (map (log 10) [1, 100]) 1 = Inr (n_h, edges)
          \<and> edges ! 0 = 0 \<and> in_histogram_bin edges 0 0"
    using h(1,3) z by auto
  with gt example_pos e na show ?thesis by blast
qed

subsection \<open>Galaxies and their halos\<close>

lemma index_of_less: "v \<in> set ys \<Longrightarrow> index_of ys v < length ys"
  by (induction ys) auto

lemma nth_index_of: "v \<in> set ys \<Longrightarrow> ys ! index_of ys v = v"
  by (induction ys) auto

lemma fold_assign_nth:
  assumes "distinct idx" and "\<forall>i \<in> set idx. i < length col"
  shows "length (fold (\<lambda>(i, j) c. c[i := vals ! j]) (zip idx (map f idx)) col) = length col
       \<and> (\<forall>g < length col.
             fold (\<lambda>(i, j) c. c[i := vals ! j]) (zip idx (map f idx)) col ! g
               = (if g \<in> set idx then vals ! f g else col ! g))"
  using assms
proof (induction idx arbitrary: col)
  case Nil
  then show ?case by simp
next
  case (Cons a idx)
  have d: "distinct idx" and a: "a \<notin> set idx" and al: "a < length col"
    using Cons.prems by simp_all
  have b: "\<forall>i \<in> set idx. i < length (col[a := vals ! f a])"
    using Cons.prems by simp
  note ih = Cons.IH [OF d b]
  show ?case
    using ih a al by (auto simp: nth_list_update)
qed

text \<open>
  Claim C6, as amended. The assertion of line 186 compares the halo ids of the
  matched pairs only, and the cross-match returns only pairs that agree: for a
  halo table without repeated ids the step never raises. Every galaxy whose halo
  id is among the qualifying halos receives the percentile of that halo, and a
  galaxy whose halo id has no match raises nothing and keeps the percentile 0.
\<close>

theorem tabulate_percentile_unmatched:
  assumes "distinct halo_ids"
  shows "\<exists>col. tabulate_percentile gal_ids halo_ids halo_percentile = Inr col
           \<and> length col = length gal_ids
           \<and> (\<forall>g < length gal_ids.
                 col ! g = (if gal_ids ! g \<in> set halo_ids
                            then halo_percentile ! index_of halo_ids (gal_ids ! g)
                            else 0))"
proof -
  define idx where "idx = filter (\<lambda>i. gal_ids ! i \<in> set halo_ids) [0..<length gal_ids]"
  define f where "f = (\<lambda>i. index_of halo_ids (gal_ids ! i))"
  have cm: "crossmatch gal_ids halo_ids = Inr (idx, map f idx)"
    using assms by (simp add: crossmatch_def idx_def f_def Let_def)
  have r1: "\<not> (\<exists>i \<in> set idx. length gal_ids \<le> i)"
    by (auto simp: idx_def)
  have r2: "\<not> (\<exists>j \<in> set (map f idx). length halo_ids \<le> j)"
    using index_of_less by (fastforce simp: idx_def f_def not_le)
  have eq: "map (\<lambda>i. gal_ids ! i) idx = map (\<lambda>j. halo_ids ! j) (map f idx)"
    by (auto simp: idx_def f_def nth_index_of)
  have dist: "distinct idx" by (simp add: idx_def)
  have bound: "\<forall>i \<in> set idx. i < length (replicate (length gal_ids) (0::real))"
    by (auto simp: idx_def)
  define col where "col = fold (\<lambda>(i, j) c. c[i := halo_percentile ! j]) (zip idx (map f idx))
                      (replicate (length gal_ids) (0::real))"
  have res: "tabulate_percentile gal_ids halo_ids halo_percentile = Inr col"
    using r1 r2 eq by (simp add: tabulate_percentile_def cm col_def)
  from fold_assign_nth [OF dist bound, of halo_percentile f]
  have len: "length col = length gal_ids"
    and nth: "\<forall>g < length gal_ids. col ! g = (if g \<in> set idx then halo_percentile ! f g else 0)"
    by (simp_all add: col_def)
  have "col ! g = (if gal_ids ! g \<in> set halo_ids
                   then halo_percentile ! index_of halo_ids (gal_ids ! g) else 0)"
    if "g < length gal_ids" for g
    using nth that by (simp add: idx_def f_def)
  with res len show ?thesis by blast
qed

theorem tabulate_percentile_unmatched_witness:
  "distinct [1, 2 :: int]
   \<and> (\<exists>col. tabulate_percentile [2, 7, 1] [1, 2] [3 / 10, 9 / 10] = Inr col
          \<and> length col = 3 \<and> col ! 0 = 9 / 10 \<and> col ! 1 = 0 \<and> col ! 2 = 3 / 10)"
proof -
  have d: "distinct [1, 2 :: int]" by simp
  from tabulate_percentile_unmatched [OF d, of "[2, 7, 1]" "[3 / 10, 9 / 10]"]
  obtain col where c: "tabulate_percentile [2, 7, 1] [1, 2] [3 / 10, 9 / 10] = Inr col"
    "length col = length [2, 7, 1 :: int]"
    "\<forall>g < length [2, 7, 1 :: int]. col ! g = (if [2, 7, 1 :: int] ! g \<in> set [1, 2]
                            then [3 / 10, 9 / 10 :: real] ! index_of [1, 2 :: int] ([2, 7, 1] ! g) else 0)"
    by blast
  have "col ! 0 = 9 / 10" using c(3) [rule_format, of 0] by simp
  moreover have "col ! 1 = 0" using c(3) [rule_format, of 1] by simp
  moreover have "col ! 2 = 3 / 10" using c(3) [rule_format, of 2] by simp
  ultimately show ?thesis using c(1,2) d by auto
qed

text \<open>
  Claim C6 as stated fails: in the example run the third galaxy names halo 7,
  which is not among the qualifying halos 1 and 2, and \<^verbatim>\<open>tabulate\<close> returns its
  result without any error.
\<close>

theorem unmatched_galaxy_counterexample:
  "map halo_id (filter (\<lambda>h. halo_prim h \<ge> Num_ptcl_requirement (example_params ''auto'') * particle_mass example_halocat)
         (filter (\<lambda>h. halo_pid h = - 1) (halo_table example_halocat))) = [1, 2]
   \<and> gal_halo_id (mock_galaxy_table (example_collaborators example_gals) ! 2) = 7
   \<and> tabulate example_halocat (example_tpcf ''wp'') [7] (example_params ''auto'') [(''pi_max'', 40)]
        (example_collaborators example_gals) = Inr example_result"
  using example_run
  by (simp add: example_halocat_def example_params_def example_collaborators_def example_gals_def)

subsection \<open>A catalogue without qualifying halos\<close>

lemma for_loop_fixed:
  "(\<And>x. x \<in> set xs \<Longrightarrow> body x s = Inr s) \<Longrightarrow> for_loop xs body s = Inr s"
  by (induction xs) simp_all

lemma tabulate_matrix_no_galaxies:
  assumes "\<forall>i < n. pos ! i = []"
  shows "tabulate_matrix tpcf args kwargs md n pos =
           Inr \<lparr>st_tpcf_matrix = None, st_tpcf_shape = None, st_calls = []\<rparr>"
  unfolding tabulate_matrix_def
proof (rule for_loop_fixed)
  fix i assume "i \<in> set [0..<n]"
  then have i: "pos ! i = []" using assms by simp
  define s0 where "s0 = \<lparr>st_tpcf_matrix = None, st_tpcf_shape = None, st_calls = []\<rparr>"
  have a: "for_loop [i..<n] (auto_pair tpcf args kwargs n pos i) s0 = Inr s0"
    by (rule for_loop_fixed) (simp add: auto_pair_skip i)
  have c: "cross_bin tpcf args kwargs n pos i s0 = Inr s0"
    by (rule cross_bin_skip [OF i])
  show "(if md = ''auto'' then for_loop [i..<n] (auto_pair tpcf args kwargs n pos i) s0
         else if md = ''cross'' then cross_bin tpcf args kwargs n pos i s0 else Inr s0) = Inr s0"
    using a c by simp
qed

lemma tabulate_pos_no_galaxies_loop:
  assumes "sec_hp \<longrightarrow> c_sec t \<noteq> None"
  shows "for_loop rows
       (\<lambda>i pos. case bin_mask t [] sec_hp sec_split i of
                   Inl e \<Rightarrow> Inl e
                 | Inr msk \<Rightarrow>
                     (case np_select [] msk of
                        Inl e \<Rightarrow> Inl e
                      | Inr selected \<Rightarrow> Inr (pos @ [selected])))
       pos0 = Inr (pos0 @ replicate (length rows) [])"
proof (induction rows arbitrary: pos0)
  case Nil
  show ?case by simp
next
  case (Cons i rows)
  have m: "bin_mask t [] sec_hp sec_split i = Inr []"
    using assms by (auto simp: bin_mask_def split: option.splits)
  show ?case
    using Cons.IH [of "pos0 @ [[]]"] by (simp add: m np_select_def replicate_append_same)
qed

lemma tabulate_pos_no_galaxies:
  assumes "sec_hp \<longrightarrow> c_sec t \<noteq> None"
  shows "tabulate_pos t [] [] sec_hp sec_split = Inr (replicate (table_len t) [])"
  unfolding tabulate_pos_def
  using tabulate_pos_no_galaxies_loop [OF assms, of "[0..<table_len t]" sec_split "[]"] by simp

lemma histogram_counts_empty: "histogram_counts [] edges = replicate (length edges - 1) 0"
  by (simp add: histogram_counts_def map_replicate_const)

lemma set_np_tile_zero: "set xs \<subseteq> {0} \<Longrightarrow> set (np_tile xs k) \<subseteq> {0}"
  by (induction k) (auto simp: np_tile_def)

text \<open>
  Claim C7, as amended. When no halo of the catalogue qualifies (and the
  percentile routine returns the empty column for the empty table, and the mock
  has no galaxy), the binning raises nothing, but the bin table is not empty:
  the histogram of an empty sample still has \<^verbatim>\<open>prim_haloprop_bins\<close> bins, so the
  table has \<open>2 \<times> prim_haloprop_bins \<times> (2 if the split is on, else 1)\<close> rows, each
  with \<open>n_h = 0\<close>. No bin receives a galaxy, no call is made, the matrix is never
  allocated, and the method ends with the unbound-variable error of line 262
  instead of returning a bundle of empty arrays.
\<close>

theorem tabulate_without_halos:
  assumes none: "\<forall>h \<in> set (halo_table cat).
                   \<not> (halo_pid h = - 1 \<and> halo_prim h \<ge> Num_ptcl_requirement p * particle_mass cat)"
    and pct: "compute_conditional_percentiles ext [] = Inr []"
    and bins: "1 \<le> prim_haloprop_bins p"
    and gals: "mock_galaxy_table ext = []"
    and xyz: "return_xyz_formatted_array ext [] = []"
  shows "(\<exists>t. tabulate_gal_type [] [] (sec_haloprop p) (sec_haloprop_split p) (prim_haloprop_bins p)
                (prod_list (Lbox cat)) = Inr t
             \<and> table_len t = 2 * nat (prim_haloprop_bins p) * (if sec_haloprop p then 2 else 1)
             \<and> set (c_n_h t) \<subseteq> {0})
       \<and> tabulate cat tpcf args p kwargs ext = Inl UnboundLocalError"
proof -
  have halos: "filter (\<lambda>h. halo_prim h \<ge> Num_ptcl_requirement p * particle_mass cat)
                 (filter (\<lambda>h. halo_pid h = - 1) (halo_table cat)) = []"
    using none by (auto simp: filter_empty_conv)
  obtain t where t: "tabulate_gal_type [] [] (sec_haloprop p) (sec_haloprop_split p)
      (prim_haloprop_bins p) (prod_list (Lbox cat)) = Inr t"
    using tabulate_gal_type_total [of "prim_haloprop_bins p" "[]" "[]" "sec_haloprop p"
        "sec_haloprop_split p" "prod_list (Lbox cat)"] bins by auto
  obtain n_h edges X where
    pos: "\<forall>x \<in> set ([] :: real list). 0 < x"
    and h: "np_histogram (map (log 10) []) (prim_haloprop_bins p) = Inr (n_h, edges)"
    and X: "X = (if sec_haloprop p
          then histogram_counts (map (\<lambda>(x, p). log 10 x) (filter (\<lambda>(x, pc). pc < sec_haloprop_split p) (zip [] []))) edges @
               histogram_counts (map (\<lambda>(x, p). log 10 x) (filter (\<lambda>(x, pc). pc \<ge> sec_haloprop_split p) (zip [] []))) edges
          else n_h)"
    and lx: "length X = nat (prim_haloprop_bins p) * (if sec_haloprop p then 2 else 1)"
    and nh: "c_n_h t = map (\<lambda>c. real c / prod_list (Lbox cat)) (np_tile X 2)"
    and sec: "c_sec t = (if sec_haloprop p then Some (np_tile (np_repeat [0, 1] (nat (prim_haloprop_bins p))) 2) else None)"
    and gty: "c_gal_type t = replicate (length X) ''centrals'' @ replicate (length X) ''satellites''"
    and mn: "c_log_prim_haloprop_min t = np_tile (butlast edges) (2 * (if sec_haloprop p then 2 else 1))"
    and mx: "c_log_prim_haloprop_max t = np_tile (tl edges) (2 * (if sec_haloprop p then 2 else 1))"
    and pr: "c_prim_haloprop t = map2 (\<lambda>lo hi. 10 powr (0.5 * (lo + hi)))
        (c_log_prim_haloprop_min t) (c_log_prim_haloprop_max t)"
    by (rule tabulate_gal_type_InrD [OF t])
  have nz: "n_h = histogram_counts [] edges"
    using h by (auto simp: np_histogram_def Let_def split: if_splits)
  have Xz: "set X \<subseteq> {0}"
    by (auto simp: X nz histogram_counts_empty)
  have len: "table_len t = 2 * nat (prim_haloprop_bins p) * (if sec_haloprop p then 2 else 1)"
    by (simp add: table_len_def nh length_np_tile lx)
  have zero: "set (c_n_h t) \<subseteq> {0}"
    using set_np_tile_zero [OF Xz, of 2] by (auto simp: nh)
  have so: "sec_haloprop p \<longrightarrow> c_sec t \<noteq> None" by (simp add: sec)
  have jn: "tabulate_percentile [] [] [] = Inr []"
    by (simp add: tabulate_percentile_def crossmatch_def)
  have ps: "tabulate_pos t [] [] (sec_haloprop p) (sec_haloprop_split p) = Inr (replicate (table_len t) [])"
    by (rule tabulate_pos_no_galaxies [OF so])
  have mat: "tabulate_matrix tpcf args kwargs (mode p) (table_len t) (replicate (table_len t) []) =
           Inr \<lparr>st_tpcf_matrix = None, st_tpcf_shape = None, st_calls = []\<rparr>"
    by (rule tabulate_matrix_no_galaxies) simp
  have "tabulate cat tpcf args p kwargs ext = Inl UnboundLocalError"
    unfolding tabulate_def Let_def halos
    by (simp add: pct t gals jn xyz ps mat)
  with t len zero show ?thesis by blast
qed

theorem tabulate_without_halos_witness:
  "compute_conditional_percentiles (example_collaborators []) [] = Inr []
   \<and> mock_galaxy_table (example_collaborators []) = []
   \<and> (\<exists>t. tabulate_gal_type [] [] False (1 / 2) 1 8 = Inr t \<and> table_len t = 2 \<and> set (c_n_h t) \<subseteq> {0})
   \<and> tabulate example_subhalos_only (example_tpcf ''wp'') [7] (example_params ''cross'')
        [(''pi_max'', 40)] (example_collaborators []) = Inl UnboundLocalError"
proof -
  have none: "\<forall>h \<in> set (halo_table example_subhalos_only).
     \<not> (halo_pid h = - 1 \<and>
        halo_prim h \<ge> Num_ptcl_requirement (example_params ''cross'') * particle_mass example_subhalos_only)"
    by (simp add: example_subhalos_only_def example_halocat_def)
  have pct: "compute_conditional_percentiles (example_collaborators []) [] = Inr []"
    by (simp add: example_collaborators_def)
  have bins: "1 \<le> prim_haloprop_bins (example_params ''cross'')"
    by (simp add: example_params_def)
  have gals: "mock_galaxy_table (example_collaborators []) = []"
    by (simp add: example_collaborators_def)
  have xyz: "return_xyz_formatted_array (example_collaborators []) [] = []"
    by (simp add: example_collaborators_def)
  from tabulate_without_halos [OF none pct bins gals xyz, of "example_tpcf ''wp''" "[7]" "[(''pi_max'', 40)]"]
  show ?thesis
    using pct gals by (simp add: example_params_def example_subhalos_only_def example_halocat_def)
qed

text \<open>
  Claim C7 as stated fails: with no qualifying halo the bin table of the example
  has two rows, not none, and \<^verbatim>\<open>tabulate\<close> returns no bundle but the error.
\<close>

theorem tabulate_without_halos_counterexample:
  "filter (\<lambda>h. halo_pid h = - 1) (halo_table example_subhalos_only) = []
   \<and> (\<exists>t. tabulate_gal_type [] [] False (1 / 2) 1 8 = Inr t \<and> table_len t \<noteq> 0)
   \<and> (\<forall>halotab. tabulate example_subhalos_only (example_tpcf ''wp'') [7] (example_params ''auto'')
        [(''pi_max'', 40)] (example_collaborators []) \<noteq> Inr halotab)"
proof -
  have a: "filter (\<lambda>h. halo_pid h = - 1) (halo_table example_subhalos_only) = []"
    by (simp add: example_subhalos_only_def example_halocat_def)
  have t: "tabulate_gal_type [] [] False (1 / 2) 1 8 =
     Inr \<lparr>c_n_h = [0, 0], c_sec = None, c_gal_type = [''centrals'', ''satellites''],
          c_log_prim_haloprop_min = [0, 0], c_log_prim_haloprop_max = [1, 1],
          c_prim_haloprop = [10 powr (1 / 2), 10 powr (1 / 2)]\<rparr>"
    by (simp add: tabulate_gal_type_def np_histogram_def np_linspace_def histogram_counts_def
        in_histogram_bin_def np_tile_def Let_def numeral_2_eq_2)
  have b: "\<exists>t. tabulate_gal_type [] [] False (1 / 2) 1 8 = Inr t \<and> table_len t \<noteq> 0"
    unfolding t by (simp add: table_len_def)
  have run: "tabulate example_subhalos_only (example_tpcf ''wp'') [7] (example_params ''auto'')
        [(''pi_max'', 40)] (example_collaborators []) = Inl UnboundLocalError"
    by (simp add: tabulate_def example_subhalos_only_def example_halocat_def example_params_def
        example_collaborators_def t tabulate_percentile_def crossmatch_def tabulate_pos_def
        table_len_def numeral_2_eq_2 bin_mask_def np_select_def tabulate_matrix_def auto_pair_def)
  from a b run show ?thesis by simp
qed

subsection \<open>Prediction\<close>

lemma sequence_map_Inr:
  "(\<And>x. x \<in> set xs \<Longrightarrow> f x = Inr (g x)) \<Longrightarrow> sequence (map f xs) = Inr (map g xs)"
  by (induction xs) simp_all

lemma np_multiply_1d_same:
  assumes "length xs = length ys"
  shows "np_multiply_1d xs ys = Inr (map2 (*) xs ys)"
proof -
  have "sequence (map (\<lambda>(x, y). Inr (x * y)) (zip xs ys)) = Inr (map (\<lambda>(x, y). x * y) (zip xs ys))"
    by (rule sequence_map_Inr) auto
  then show ?thesis using assms by (simp add: np_multiply_1d_def np_broadcast_def)
qed

lemma np_multiply_2d_same:
  assumes "length p = length q" and "\<forall>(r, s) \<in> set (zip p q). length r = length s"
  shows "np_multiply_2d p q = Inr (map2 (map2 (*)) p q)"
proof -
  have "sequence (map (\<lambda>(r, s). np_multiply_1d r s) (zip p q)) = Inr (map (\<lambda>(r, s). map2 (*) r s) (zip p q))"
    by (rule sequence_map_Inr) (use assms(2) in \<open>auto simp: np_multiply_1d_same\<close>)
  then show ?thesis using assms(1) by (simp add: np_multiply_2d_def np_broadcast_def)
qed

lemma sum_list_nth_lessThan: "sum_list xs = (\<Sum>i<length xs. xs ! i)"
  by (simp add: sum_list_sum_nth atLeast0LessThan)

lemma weighted_plane_sum:
  assumes lp: "length plane = n" and rows: "\<forall>row \<in> set plane. length row = n" and ln: "length ngal = n"
  shows "sum_list (map sum_list (map2 (map2 (*)) plane (np_outer ngal ngal)))
           = (\<Sum>i<n. \<Sum>j<n. plane ! i ! j * (ngal ! i * ngal ! j))"
proof -
  define w where "w = map2 (map2 (*)) plane (np_outer ngal ngal)"
  have lw: "length w = n" by (simp add: w_def np_outer_def lp ln)
  have row: "sum_list (w ! i) = (\<Sum>j<n. plane ! i ! j * (ngal ! i * ngal ! j))" if i: "i < n" for i
  proof -
    have lr: "length (plane ! i) = n" using rows i lp by simp
    have wi: "w ! i = map2 (*) (plane ! i) (map (\<lambda>y. ngal ! i * y) ngal)"
      using i by (simp add: w_def np_outer_def lp ln)
    have lwi: "length (w ! i) = n" by (simp add: wi lr ln)
    have "sum_list (w ! i) = (\<Sum>j<n. w ! i ! j)"
      using sum_list_nth_lessThan [of "w ! i"] by (simp add: lwi)
    also have "\<dots> = (\<Sum>j<n. plane ! i ! j * (ngal ! i * ngal ! j))"
      by (rule sum.cong) (simp_all add: wi lr ln)
    finally show ?thesis .
  qed
  have "sum_list (map sum_list w) = (\<Sum>i<n. map sum_list w ! i)"
    using sum_list_nth_lessThan [of "map sum_list w"] by (simp add: lw)
  also have "\<dots> = (\<Sum>i<n. \<Sum>j<n. plane ! i ! j * (ngal ! i * ngal ! j))"
    by (rule sum.cong) (simp_all add: lw row)
  finally show ?thesis by (simp add: w_def)
qed

lemma length_put_mask: "length (put_mask a msk vs) = length a"
  by (induction a msk vs rule: put_mask.induct) (simp_all split: list.splits)

lemma np_mask_assign_Inr:
  assumes "length msk = length a" and "length vals = length (filter (\<lambda>b. b) msk)"
  shows "np_mask_assign a msk vals = Inr (put_mask a msk vals)"
  using assms by (simp add: np_mask_assign_def Let_def)

lemma length_select: "length (map fst (filter snd (zip a msk))) = length (filter (\<lambda>b. b) msk)"
  if "length a = length msk"
  using that by (induction a msk rule: list_induct2) simp_all

lemma np_select_same:
  assumes "length a = length msk"
  shows "np_select a msk = Inr (map fst (filter snd (zip a msk)))"
  using assms by (simp add: np_select_def)

lemma select_put_same:
  assumes "length a = length msk" and "length vs = length (filter (\<lambda>b. b) msk)"
  shows "map fst (filter snd (zip (put_mask a msk vs) msk)) = vs"
  using assms
proof (induction a msk arbitrary: vs rule: list_induct2)
  case Nil
  then show ?case by simp
next
  case (Cons x xs m ms)
  show ?case
  proof (cases m)
    case True
    then obtain v vs' where v: "vs = v # vs'" using Cons.prems by (cases vs) simp_all
    then have "length vs' = length (filter (\<lambda>b. b) ms)" using Cons.prems True by simp
    from Cons.IH [OF this] show ?thesis using True v by simp
  next
    case False
    then have "length vs = length (filter (\<lambda>b. b) ms)" using Cons.prems by simp
    from Cons.IH [OF this] show ?thesis using False by simp
  qed
qed

lemma select_put_other:
  assumes "length a = length msk"
  shows "map fst (filter snd (zip (put_mask a msk vs) (map Not msk)))
           = map fst (filter snd (zip a (map Not msk)))"
  using assms
proof (induction a msk arbitrary: vs rule: list_induct2)
  case Nil
  then show ?case by simp
next
  case (Cons x xs m ms)
  show ?case
  proof (cases m)
    case True
    then show ?thesis using Cons.IH by (cases vs) simp_all
  next
    case False
    then show ?thesis using Cons.IH by simp
  qed
qed

lemma count_not: "length (filter (\<lambda>b. b) (map Not msk)) = length (filter Not msk)"
  by (induction msk) simp_all

lemma mean_occupation_Inr:
  fixes self :: "'a tabcorr"
  assumes lg: "length (c_gal_type (gal_type self)) = table_len (gal_type self)"
    and lp: "length (c_prim_haloprop (gal_type self)) = table_len (gal_type self)"
    and sa: "map_of (attrs self) ''sec_haloprop'' = Some a"
    and sc: "py_truth a \<longrightarrow> (\<exists>sec. c_sec (gal_type self) = Some sec \<and> length sec = table_len (gal_type self))"
    and ec: "\<forall>xs ss. length (mean_occupation_centrals mdl xs ss) = length xs"
    and es: "\<forall>xs ss. length (mean_occupation_satellites mdl xs ss) = length xs"
  obtains occ prim_c sec_c prim_s sec_s where
    "mean_occupation self mdl = Inr occ" "length occ = table_len (gal_type self)"
    "np_select (c_prim_haloprop (gal_type self)) (map (\<lambda>g. g = ''centrals'') (c_gal_type (gal_type self))) = Inr prim_c"
    "sec_argument self (map (\<lambda>g. g = ''centrals'') (c_gal_type (gal_type self))) = Inr sec_c"
    "np_select occ (map (\<lambda>g. g = ''centrals'') (c_gal_type (gal_type self)))
       = Inr (mean_occupation_centrals mdl prim_c sec_c)"
    "np_select (c_prim_haloprop (gal_type self)) (map (\<lambda>g. g \<noteq> ''centrals'') (c_gal_type (gal_type self))) = Inr prim_s"
    "sec_argument self (map (\<lambda>g. g \<noteq> ''centrals'') (c_gal_type (gal_type self))) = Inr sec_s"
    "np_select occ (map (\<lambda>g. g \<noteq> ''centrals'') (c_gal_type (gal_type self)))
       = Inr (mean_occupation_satellites mdl prim_s sec_s)"
proof -
  note result = that
  define t where "t = gal_type self"
  define n where "n = table_len t"
  define msk where "msk = map (\<lambda>g. g = ''centrals'') (c_gal_type t)"
  define nmsk where "nmsk = map Not msk"
  have nm: "nmsk = map (\<lambda>g. g \<noteq> ''centrals'') (c_gal_type t)" by (simp add: nmsk_def msk_def)
  have lm: "length msk = n" using lg by (simp add: msk_def t_def n_def)
  have lnm: "length nmsk = n" by (simp add: nmsk_def lm)
  have lpn: "length (c_prim_haloprop t) = n" using lp by (simp add: t_def n_def)
  define prim_c where "prim_c = map fst (filter snd (zip (c_prim_haloprop t) msk))"
  define prim_s where "prim_s = map fst (filter snd (zip (c_prim_haloprop t) nmsk))"
  have pc: "np_select (c_prim_haloprop t) msk = Inr prim_c"
    unfolding prim_c_def by (rule np_select_same) (simp add: lpn lm)
  have ps: "np_select (c_prim_haloprop t) nmsk = Inr prim_s"
    unfolding prim_s_def by (rule np_select_same) (simp add: lpn lnm)
  have lpc: "length prim_c = length (filter (\<lambda>b. b) msk)"
    unfolding prim_c_def by (rule length_select) (simp add: lpn lm)
  have lps: "length prim_s = length (filter (\<lambda>b. b) nmsk)"
    unfolding prim_s_def by (rule length_select) (simp add: lpn lnm)
  have sec_ok: "\<exists>r. sec_argument self k = Inr r" if "length k = n" for k
  proof (cases "py_truth a")
    case True
    then obtain sec where s: "c_sec t = Some sec" "length sec = n" using sc by (auto simp: t_def n_def)
    have "np_select sec k = Inr (map fst (filter snd (zip sec k)))"
      by (rule np_select_same) (simp add: s that)
    then show ?thesis using True s sa by (simp add: sec_argument_def t_def)
  next
    case False
    then show ?thesis using sa by (simp add: sec_argument_def)
  qed
  obtain sec_c where scc: "sec_argument self msk = Inr sec_c" using sec_ok [OF lm] by blast
  obtain sec_s where scs: "sec_argument self nmsk = Inr sec_s" using sec_ok [OF lnm] by blast
  define cv where "cv = mean_occupation_centrals mdl prim_c sec_c"
  define sv where "sv = mean_occupation_satellites mdl prim_s sec_s"
  have lcv: "length cv = length (filter (\<lambda>b. b) msk)" using ec lpc by (simp add: cv_def)
  have lsv: "length sv = length (filter (\<lambda>b. b) nmsk)" using es lps by (simp add: sv_def)
  define zeros where "zeros = replicate n (0::real)"
  define occ_c where "occ_c = put_mask zeros msk cv"
  define occ where "occ = put_mask occ_c nmsk sv"
  have a1: "np_mask_assign zeros msk cv = Inr occ_c"
    unfolding occ_c_def by (rule np_mask_assign_Inr) (simp_all add: zeros_def lm lcv)
  have loc: "length occ_c = n" by (simp add: occ_c_def length_put_mask zeros_def)
  have a2: "np_mask_assign occ_c nmsk sv = Inr occ"
    unfolding occ_def by (rule np_mask_assign_Inr) (simp_all add: loc lnm lsv)
  have lo: "length occ = n" by (simp add: occ_def length_put_mask loc)
  have mo: "mean_occupation self mdl = Inr occ"
    unfolding mean_occupation_def Let_def
    using pc scc a1 ps scs a2
    by (simp add: t_def [symmetric] n_def [symmetric] msk_def [symmetric] nmsk_def [symmetric]
          zeros_def [symmetric] cv_def [symmetric] sv_def [symmetric])
  have nn: "map Not nmsk = msk" by (simp add: nmsk_def comp_def)
  have "map fst (filter snd (zip occ (map Not nmsk))) = map fst (filter snd (zip occ_c (map Not nmsk)))"
    unfolding occ_def by (rule select_put_other) (simp add: loc lnm)
  also have "\<dots> = cv"
    unfolding nn occ_c_def by (rule select_put_same) (simp_all add: zeros_def lm lcv)
  finally have selc: "map fst (filter snd (zip occ msk)) = cv" by (simp add: nn)
  have sels: "map fst (filter snd (zip occ nmsk)) = sv"
    unfolding occ_def by (rule select_put_same) (simp_all add: loc lnm lsv)
  have oc: "np_select occ msk = Inr cv"
    using np_select_same [of occ msk] selc by (simp add: lo lm)
  have os: "np_select occ nmsk = Inr sv"
    using np_select_same [of occ nmsk] sels by (simp add: lo lnm)
  show thesis
    by (rule result [OF mo lo [unfolded n_def t_def]
          pc [unfolded msk_def t_def] scc [unfolded msk_def t_def] oc [unfolded cv_def msk_def t_def]
          ps [unfolded nm t_def] scs [unfolded nm t_def] os [unfolded sv_def nm t_def]])
qed

end
